theory Spec2Isabelle
  imports Complex_Main "HOL-Library.Product_Lexorder" "HOL-Library.Sublist"
begin

section \<open>Strings and the Unicode tables\<close>

text \<open>
  A Python \<open>str\<close> is a sequence of Unicode code points, and \<open>len\<close> counts code points,
  so a string is a list of code points here. The classification of the ASCII range
  is written out. What the interpreter's Unicode database says about code points from 128
  on (which are decimal digits, which are alphanumeric, how \<open>str.upper\<close> maps them, which
  of them match an ASCII letter under \<open>re.IGNORECASE\<close>, the value of a decimal digit) is
  not part of the repository: it is the parameter \<open>U\<close> of every function that depends on it.
\<close>

type_synonym ustr = "nat list"

definition str :: "string \<Rightarrow> ustr" where
  "str s = map of_char s"

record unicode_tables =
  uni_decimal :: "nat \<Rightarrow> bool"
  uni_alnum :: "nat \<Rightarrow> bool"
  uni_upper :: "nat \<Rightarrow> ustr"
  uni_caseless :: "nat \<Rightarrow> nat \<Rightarrow> bool"
  uni_digit_value :: "nat \<Rightarrow> nat"

definition is_lower :: "nat \<Rightarrow> bool" where
  "is_lower c = (97 \<le> c \<and> c \<le> 122)"

definition is_upper :: "nat \<Rightarrow> bool" where
  "is_upper c = (65 \<le> c \<and> c \<le> 90)"

definition is_alpha :: "nat \<Rightarrow> bool" where
  "is_alpha c = (is_upper c \<or> is_lower c)"

definition is_ascii_digit :: "nat \<Rightarrow> bool" where
  "is_ascii_digit c = (48 \<le> c \<and> c \<le> 57)"

text \<open>\<open>\s\<close> and \<open>str.strip\<close>, \<open>str.split\<close>: the code points for which \<open>str.isspace\<close> holds.\<close>

definition is_space :: "nat \<Rightarrow> bool" where
  "is_space c = ((9 \<le> c \<and> c \<le> 13) \<or> (28 \<le> c \<and> c \<le> 32) \<or> c = 133 \<or> c = 160
     \<or> c = 5760 \<or> (8192 \<le> c \<and> c \<le> 8202) \<or> c = 8232 \<or> c = 8233 \<or> c = 8239
     \<or> c = 8287 \<or> c = 12288)"

text \<open>\<open>\d\<close> and \<open>\w\<close> of a \<open>str\<close> pattern.\<close>

definition is_digit :: "unicode_tables \<Rightarrow> nat \<Rightarrow> bool" where
  "is_digit U c = (if c < 128 then is_ascii_digit c else uni_decimal U c)"

definition is_word :: "unicode_tables \<Rightarrow> nat \<Rightarrow> bool" where
  "is_word U c =
     (if c < 128 then is_alpha c \<or> is_ascii_digit c \<or> c = 95 else uni_alnum U c)"

definition ascii_lower :: "nat \<Rightarrow> nat" where
  "ascii_lower c = (if is_upper c then c + 32 else c)"

definition ascii_upper :: "nat \<Rightarrow> nat" where
  "ascii_upper c = (if is_lower c then c - 32 else c)"

definition py_upper :: "unicode_tables \<Rightarrow> ustr \<Rightarrow> ustr" where
  "py_upper U s = concat (map (\<lambda>c. if c < 128 then [ascii_upper c] else uni_upper U c) s)"

text \<open>
  A literal character \<open>l\<close> of a pattern compiled with \<open>re.IGNORECASE\<close> against the
  character \<open>c\<close> of the text. All such literals in the program are ASCII.
\<close>

definition ci_eq :: "unicode_tables \<Rightarrow> nat \<Rightarrow> nat \<Rightarrow> bool" where
  "ci_eq U l c =
     (if c < 128 then ascii_lower c = ascii_lower l else is_alpha l \<and> uni_caseless U c l)"

definition py_strip :: "ustr \<Rightarrow> ustr" where
  "py_strip s = rev (dropWhile is_space (rev (dropWhile is_space s)))"

text \<open>\<open>s.split()\<close>: the maximal runs of non-whitespace; the second argument is the run being read.\<close>

fun split_ws :: "ustr \<Rightarrow> ustr \<Rightarrow> ustr list" where
  "split_ws [] cur = (if cur = [] then [] else [cur])"
| "split_ws (c # cs) cur =
     (if is_space c then (if cur = [] then split_ws cs [] else cur # split_ws cs [])
      else split_ws cs (cur @ [c]))"

definition py_split :: "ustr \<Rightarrow> ustr list" where
  "py_split s = split_ws s []"

fun py_join :: "ustr \<Rightarrow> ustr list \<Rightarrow> ustr" where
  "py_join sep [] = []"
| "py_join sep [x] = x"
| "py_join sep (x # xs) = x @ sep @ py_join sep xs"

definition startswith :: "ustr \<Rightarrow> ustr \<Rightarrow> bool" where
  "startswith s w = (take (length w) s = w)"

definition endswith :: "ustr \<Rightarrow> ustr \<Rightarrow> bool" where
  "endswith s w = (length w \<le> length s \<and> drop (length s - length w) s = w)"

text \<open>\<open>w in s\<close> for strings.\<close>

fun contains :: "ustr \<Rightarrow> ustr \<Rightarrow> bool" where
  "contains [] w = (w = [])"
| "contains (c # cs) w = (startswith (c # cs) w \<or> contains cs w)"

section \<open>Regular expressions\<close>

text \<open>
  The patterns of the program use literals, character classes, greedy repetition of a
  single character class (\<open>*\<close>, \<open>+\<close>, \<open>{m,n}\<close>), \<open>?\<close> on a group, alternation, capturing
  groups, \<open>^\<close>, \<open>$\<close>, \<open>\b\<close> and one-character look-behind and look-ahead. \<open>rx\<close> is
  that fragment and \<open>m\<close> is the backtracking matcher of \<open>re\<close> on it: the continuation
  \<open>k\<close> is the rest of the pattern, and the first alternative whose continuation
  succeeds is the match. The matcher sees the character before the current position
  (\<open>None\<close> at the start of the text) and the text from the current position on.
\<close>

datatype rx =
    Eps
  | Cls "nat \<Rightarrow> bool"
  | Rep "nat \<Rightarrow> bool" nat "nat option"
  | Opt rx
  | Alt rx rx
  | Seq rx rx
  | Grp rx
  | Bos
  | Eos
  | Wb "nat \<Rightarrow> bool"
  | Behind "nat \<Rightarrow> bool"
  | Ahead "nat \<Rightarrow> bool"

text \<open>The first of \<open>n, n - 1, \<dots>, lo\<close> at which \<open>f\<close> succeeds: a greedy repetition giving back.\<close>

fun first_down :: "(nat \<Rightarrow> 'r option) \<Rightarrow> nat \<Rightarrow> nat \<Rightarrow> 'r option" where
  "first_down f lo 0 = (if lo = 0 then f 0 else None)"
| "first_down f lo (Suc n) =
     (if Suc n < lo then None
      else (case f (Suc n) of Some r \<Rightarrow> Some r | None \<Rightarrow> first_down f lo n))"

definition prev_after :: "nat option \<Rightarrow> ustr \<Rightarrow> nat \<Rightarrow> nat option" where
  "prev_after p s n = (if n = 0 then p else Some (s ! (n - 1)))"

definition run_len :: "(nat \<Rightarrow> bool) \<Rightarrow> nat option \<Rightarrow> ustr \<Rightarrow> nat" where
  "run_len P hi s =
     (let n = length (takeWhile P s) in case hi of None \<Rightarrow> n | Some h \<Rightarrow> min h n)"

fun m :: "rx \<Rightarrow> nat option \<Rightarrow> ustr \<Rightarrow> ustr list
          \<Rightarrow> (nat option \<Rightarrow> ustr \<Rightarrow> ustr list \<Rightarrow> 'r option) \<Rightarrow> 'r option" where
  "m Eps p s g k = k p s g"
| "m (Cls P) p s g k =
     (case s of [] \<Rightarrow> None | c # cs \<Rightarrow> if P c then k (Some c) cs g else None)"
| "m (Rep P lo hi) p s g k =
     first_down (\<lambda>i. k (prev_after p s i) (drop i s) g) lo (run_len P hi s)"
| "m (Opt r) p s g k =
     (case m r p s g k of Some x \<Rightarrow> Some x | None \<Rightarrow> k p s g)"
| "m (Alt a b) p s g k =
     (case m a p s g k of Some x \<Rightarrow> Some x | None \<Rightarrow> m b p s g k)"
| "m (Seq a b) p s g k = m a p s g (\<lambda>p' s' g'. m b p' s' g' k)"
| "m (Grp r) p s g k =
     m r p s g (\<lambda>p' s' g'. k p' s' (g' @ [take (length s - length s') s]))"
| "m Bos p s g k = (if p = None then k p s g else None)"
| "m Eos p s g k = (if s = [] \<or> s = [10] then k p s g else None)"
| "m (Wb W) p s g k =
     (if (case p of None \<Rightarrow> False | Some c \<Rightarrow> W c)
         \<noteq> (case s of [] \<Rightarrow> False | c # _ \<Rightarrow> W c)
      then k p s g else None)"
| "m (Behind P) p s g k =
     (case p of None \<Rightarrow> None | Some c \<Rightarrow> if P c then k p s g else None)"
| "m (Ahead P) p s g k =
     (case s of [] \<Rightarrow> None | c # _ \<Rightarrow> if P c then k p s g else None)"

text \<open>A match at the current position: its length and its groups, in the order they close.\<close>

definition match_at :: "rx \<Rightarrow> nat option \<Rightarrow> ustr \<Rightarrow> (nat \<times> ustr list) option" where
  "match_at r p s = m r p s [] (\<lambda>p' s' g'. Some (length s - length s', g'))"

fun seqs :: "rx list \<Rightarrow> rx" where
  "seqs [] = Eps"
| "seqs [r] = r"
| "seqs (r # rs) = Seq r (seqs rs)"

fun alts :: "rx list \<Rightarrow> rx" where
  "alts [] = Eps"
| "alts [r] = r"
| "alts (r # rs) = Alt r (alts rs)"

definition chr :: "nat \<Rightarrow> rx" where
  "chr l = Cls (\<lambda>c. c = l)"

definition lit :: "ustr \<Rightarrow> rx" where
  "lit w = seqs (map chr w)"

definition lit_i :: "unicode_tables \<Rightarrow> ustr \<Rightarrow> rx" where
  "lit_i U w = seqs (map (\<lambda>l. Cls (ci_eq U l)) w)"

definition grp :: "ustr list \<Rightarrow> nat \<Rightarrow> ustr" where
  "grp g i = (if i < length g then g ! i else [])"

text \<open>\<open>re.match\<close>: a match at the start of the text.\<close>

definition re_match :: "rx \<Rightarrow> ustr \<Rightarrow> (ustr \<times> ustr list) option" where
  "re_match r s =
     (case match_at r None s of None \<Rightarrow> None | Some (n, g) \<Rightarrow> Some (take n s, g))"

text \<open>\<open>re.search\<close>: the match at the leftmost position that has one; the matched text and the groups.\<close>

fun search_from :: "rx \<Rightarrow> nat option \<Rightarrow> ustr \<Rightarrow> (ustr \<times> ustr list) option" where
  "search_from r p [] =
     (case match_at r p [] of None \<Rightarrow> None | Some (n, g) \<Rightarrow> Some ([], g))"
| "search_from r p (c # cs) =
     (case match_at r p (c # cs) of
        Some (n, g) \<Rightarrow> Some (take n (c # cs), g)
      | None \<Rightarrow> search_from r (Some c) cs)"

definition re_search :: "rx \<Rightarrow> ustr \<Rightarrow> (ustr \<times> ustr list) option" where
  "re_search r s = search_from r None s"

text \<open>
  \<open>re.sub\<close>, \<open>re.findall\<close> and \<open>re.split\<close> walk the text from left to right over its
  non-overlapping matches: at each position, a match is taken and the walk goes on
  behind it, or the character is passed over. No pattern that the program gives to these
  three functions can match the empty string, so a match of length 0 does not occur.
\<close>

datatype token = Skip nat | Hit ustr "ustr list"

function scan :: "rx \<Rightarrow> nat option \<Rightarrow> ustr \<Rightarrow> token list" where
  "scan r p [] = []"
| "scan r p (c # cs) =
     (case match_at r p (c # cs) of
        None \<Rightarrow> Skip c # scan r (Some c) cs
      | Some (n, g) \<Rightarrow>
          if 0 < n \<and> n \<le> length (c # cs)
          then Hit (take n (c # cs)) g # scan r (Some ((c # cs) ! (n - 1))) (drop n (c # cs))
          else Skip c # scan r (Some c) cs)"
  by pat_completeness auto
termination
  by (relation "measure (\<lambda>(r, p, s). length s)") auto

fun sub_token :: "(ustr list \<Rightarrow> ustr) \<Rightarrow> token \<Rightarrow> ustr" where
  "sub_token f (Skip c) = [c]"
| "sub_token f (Hit w g) = f g"

definition re_sub :: "rx \<Rightarrow> (ustr list \<Rightarrow> ustr) \<Rightarrow> ustr \<Rightarrow> ustr" where
  "re_sub r f s = concat (map (sub_token f) (scan r None s))"

fun hits :: "token list \<Rightarrow> (ustr \<times> ustr list) list" where
  "hits [] = []"
| "hits (Skip c # ts) = hits ts"
| "hits (Hit w g # ts) = (w, g) # hits ts"

text \<open>\<open>re.findall\<close> with a pattern of one group: the group of every match.\<close>

definition re_findall1 :: "rx \<Rightarrow> ustr \<Rightarrow> ustr list" where
  "re_findall1 r s = map (\<lambda>(w, g). grp g 0) (hits (scan r None s))"

fun parts :: "token list \<Rightarrow> ustr \<Rightarrow> ustr list" where
  "parts [] cur = [cur]"
| "parts (Skip c # ts) cur = parts ts (cur @ [c])"
| "parts (Hit w g # ts) cur = cur # parts ts []"

text \<open>\<open>re.split\<close> with a pattern that has no group.\<close>

definition re_split :: "rx \<Rightarrow> ustr \<Rightarrow> ustr list" where
  "re_split r s = parts (scan r None s) []"

section \<open>Text normalizer\<close>

text \<open>The class of U+00A0, U+2007 and U+202F.\<close>

definition rx_nbsp :: rx where
  "rx_nbsp = Cls (\<lambda>c. c = 160 \<or> c = 8199 \<or> c = 8239)"

text \<open>\<open>(\w)-\s+(\w)\<close>\<close>

definition rx_hyphen_break :: "unicode_tables \<Rightarrow> rx" where
  "rx_hyphen_break U =
     seqs [Grp (Cls (is_word U)), chr 45, Rep is_space 1 None, Grp (Cls (is_word U))]"

text \<open>\<open>\s+\<close>\<close>

definition rx_spaces :: rx where
  "rx_spaces = Rep is_space 1 None"

text \<open>\<open>([a-z])([A-Z])\<close>, \<open>([A-Za-z])(\d)\<close>, \<open>(\d)([A-Za-z])\<close>\<close>

definition rx_lower_upper :: rx where
  "rx_lower_upper = seqs [Grp (Cls is_lower), Grp (Cls is_upper)]"

definition rx_letter_digit :: "unicode_tables \<Rightarrow> rx" where
  "rx_letter_digit U = seqs [Grp (Cls is_alpha), Grp (Cls (is_digit U))]"

definition rx_digit_letter :: "unicode_tables \<Rightarrow> rx" where
  "rx_digit_letter U = seqs [Grp (Cls (is_digit U)), Grp (Cls is_alpha)]"

text \<open>The replacement templates \<open>\1\2\<close> and \<open>\1 \2\<close>.\<close>

definition glue :: "ustr list \<Rightarrow> ustr" where
  "glue g = grp g 0 @ grp g 1"

definition spaced :: "ustr list \<Rightarrow> ustr" where
  "spaced g = grp g 0 @ [32] @ grp g 1"

definition clean_text :: "unicode_tables \<Rightarrow> ustr \<Rightarrow> ustr" where
  "clean_text U t =
     (if t = [] then []
      else
        let t = map (\<lambda>c. if c = 9 then 32 else c) t;
            t = re_sub rx_nbsp (\<lambda>g. [32]) t;
            t = re_sub (rx_hyphen_break U) glue t;
            t = re_sub rx_spaces (\<lambda>g. [32]) t;
            t = re_sub rx_lower_upper spaced t;
            t = re_sub (rx_letter_digit U) spaced t;
            t = re_sub (rx_digit_letter U) spaced t
        in py_strip t)"

text \<open>The table \<open>fixes\<close>, in the order of the dictionary; every pattern is \<open>\bword\b\<close>.\<close>

definition fixes_table :: "(ustr \<times> ustr) list" where
  "fixes_table =
     [(str ''openended'', str ''open ended''),
      (str ''endedequity'', str ''ended equity''),
      (str ''equityscheme'', str ''equity scheme''),
      (str ''schemeinvesting'', str ''scheme investing''),
      (str ''investingin'', str ''investing in''),
      (str ''inmaximum'', str ''in maximum''),
      (str ''multicapstocks'', str ''multicap stocks''),
      (str ''mutualfundinvestmentsaresubjecttomarketrisks'',
       str ''Mutual Fund investments are subject to market risks''),
      (str ''readallschemerelateddocumentscarefully'',
       str ''read all scheme related documents carefully'')]"

definition rx_glued :: "unicode_tables \<Rightarrow> ustr \<Rightarrow> rx" where
  "rx_glued U w = seqs [Wb (is_word U), lit_i U w, Wb (is_word U)]"

definition fix_glued_domain_terms :: "unicode_tables \<Rightarrow> ustr \<Rightarrow> ustr" where
  "fix_glued_domain_terms U text =
     (if text = [] then text
      else foldl (\<lambda>t (pat, rep). re_sub (rx_glued U pat) (\<lambda>g. rep) t) text fixes_table)"

definition noise_compact :: "ustr list" where
  "noise_compact =
     [str ''mutualfundinvestmentsaresubjecttomarketrisks'',
      str ''readallschemerelateddocumentscarefully'']"

text \<open>\<open>^\s*Page\s*\|?\s*\d+\s*$\<close> and \<open>Page\s*\d+\<close>, both with \<open>re.IGNORECASE\<close>.\<close>

definition rx_page_only :: "unicode_tables \<Rightarrow> rx" where
  "rx_page_only U =
     seqs [Bos, Rep is_space 0 None, lit_i U (str ''Page''), Rep is_space 0 None,
           Opt (chr 124), Rep is_space 0 None, Rep (is_digit U) 1 None,
           Rep is_space 0 None, Eos]"

definition rx_page_num :: "unicode_tables \<Rightarrow> rx" where
  "rx_page_num U = seqs [lit_i U (str ''Page''), Rep is_space 0 None, Rep (is_digit U) 1 None]"

definition rx_not_alpha :: rx where
  "rx_not_alpha = Cls (\<lambda>c. \<not> is_alpha c)"

definition is_noise :: "unicode_tables \<Rightarrow> ustr \<Rightarrow> bool" where
  "is_noise U text =
     (if text = [] then False
      else
        let compact = map ascii_lower (re_sub rx_not_alpha (\<lambda>g. []) text)
        in if list_ex (contains compact) noise_compact then True
           else if re_search (rx_page_only U) text \<noteq> None then True
           else if re_search (rx_page_num U) text \<noteq> None then True
           else False)"

lemmas str_evals = str_def is_lower_def is_upper_def is_alpha_def is_ascii_digit_def
  is_space_def is_digit_def is_word_def ascii_lower_def ascii_upper_def py_upper_def ci_eq_def
  py_strip_def py_split_def startswith_def endswith_def

lemmas rx_evals = prev_after_def run_len_def match_at_def chr_def lit_def lit_i_def grp_def
  re_match_def re_search_def re_sub_def re_findall1_def re_split_def

lemmas text_evals = rx_nbsp_def rx_hyphen_break_def rx_spaces_def rx_lower_upper_def
  rx_letter_digit_def rx_digit_letter_def glue_def spaced_def clean_text_def fixes_table_def
  rx_glued_def fix_glued_domain_terms_def noise_compact_def rx_page_only_def rx_page_num_def
  rx_not_alpha_def is_noise_def

section \<open>Table normalizer\<close>

text \<open>
  A raw cell is a string or \<open>None\<close>. \<open>table_in\<close> is the dictionary that
  \<open>normalize_table\<close> receives and \<open>table\<close> the one it returns.
\<close>

type_synonym cell = "ustr option"

record table_in =
  in_headers :: "cell list"
  in_rows :: "cell list list"

record table =
  headers :: "ustr list"
  rows :: "ustr list list"

definition clean_cell :: "unicode_tables \<Rightarrow> cell \<Rightarrow> ustr" where
  "clean_cell U c =
     (case c of None \<Rightarrow> []
      | Some s \<Rightarrow> py_strip (fix_glued_domain_terms U (clean_text U s)))"

text \<open>\<open>.*[A-Za-z]$\<close> and \<open>^[a-z]{1,6}$\<close>, both given to \<open>re.match\<close>.\<close>

definition rx_ends_alpha :: rx where
  "rx_ends_alpha = seqs [Rep (\<lambda>c. c \<noteq> 10) 0 None, Cls is_alpha, Eos]"

definition rx_short_lower :: rx where
  "rx_short_lower = seqs [Bos, Rep is_lower 1 (Some 6), Eos]"

definition cond_short :: "ustr \<Rightarrow> ustr \<Rightarrow> bool" where
  "cond_short cur nxt = (length cur \<le> 4 \<and> length nxt \<le> 6)"

definition cond_alpha_cont :: "ustr \<Rightarrow> ustr \<Rightarrow> bool" where
  "cond_alpha_cont cur nxt =
     (re_match rx_ends_alpha cur \<noteq> None \<and> re_match rx_short_lower nxt \<noteq> None)"

definition cond_percent_split :: "ustr \<Rightarrow> ustr \<Rightarrow> bool" where
  "cond_percent_split cur nxt =
     (endswith (py_strip cur) (str ''%Yo'') \<and> startswith (py_strip nxt) (str ''Y''))"

text \<open>
  The loop writes the merged cell into \<open>row[i + 1]\<close> and goes on from there, so the merged
  cell is the next \<open>cur\<close>; a cell is appended to \<open>merged\<close> when it is not merged into
  its successor.
\<close>

fun merge_fragments :: "ustr list \<Rightarrow> ustr list" where
  "merge_fragments [] = []"
| "merge_fragments [cur] = [cur]"
| "merge_fragments (cur # nxt # row) =
     (if cond_short cur nxt \<or> cond_alpha_cont cur nxt \<or> cond_percent_split cur nxt
      then merge_fragments (py_strip (cur @ [32] @ nxt) # row)
      else cur # merge_fragments (nxt # row))"

text \<open>\<open>while cleaned and cleaned[-1] == "": cleaned.pop()\<close>\<close>

definition pop_trailing_empty :: "ustr list \<Rightarrow> ustr list" where
  "pop_trailing_empty cleaned = rev (dropWhile (\<lambda>c. c = []) (rev cleaned))"

definition normalize_table :: "unicode_tables \<Rightarrow> table_in \<Rightarrow> table" where
  "normalize_table U tbl =
     \<lparr>headers = merge_fragments (map (clean_cell U) (in_headers tbl)),
      rows = map (\<lambda>raw_row. pop_trailing_empty (merge_fragments (map (clean_cell U) raw_row)))
                 (in_rows tbl)\<rparr>"

section \<open>Table extractor and deduplicator\<close>

text \<open>
  \<open>page.extract_tables(table_settings=mode)\<close> is a call into the table-detection library:
  for each of the two settings it raises or returns a list of grids. A page is that function.
\<close>

datatype strategy = Lines | Text

datatype 'a outcome = Raises | Returns 'a

type_synonym grid = "cell list list"

type_synonym pdf_page = "strategy \<Rightarrow> grid list outcome"

definition strategies :: "strategy list" where
  "strategies = [Lines, Text]"

text \<open>\<open>not tbl or all(cell is None or str(cell).strip() == "" for row in tbl for cell in row)\<close>\<close>

definition blank_cell :: "cell \<Rightarrow> bool" where
  "blank_cell c = (case c of None \<Rightarrow> True | Some s \<Rightarrow> py_strip s = [])"

definition skipped :: "grid \<Rightarrow> bool" where
  "skipped tbl = (tbl = [] \<or> list_all (list_all blank_cell) tbl)"

definition unnone :: "cell \<Rightarrow> cell" where
  "unnone c = (case c of None \<Rightarrow> Some [] | Some s \<Rightarrow> Some s)"

text \<open>The table built from a grid that is not skipped: \<open>tbl[0]\<close> is the header.\<close>

definition norm_of :: "unicode_tables \<Rightarrow> grid \<Rightarrow> table" where
  "norm_of U tbl =
     normalize_table U \<lparr>in_headers = map unnone (hd tbl), in_rows = map (map unnone) (tl tbl)\<rparr>"

definition fingerprint :: "table \<Rightarrow> ustr list \<times> nat" where
  "fingerprint t = (headers t, length (rows t))"

text \<open>The body of \<open>for tbl in tables or []\<close>, on the state \<open>(seen_keys, page_tables)\<close>.\<close>

definition add_table :: "unicode_tables \<Rightarrow> (ustr list \<times> nat) set \<times> table list \<Rightarrow> grid
                          \<Rightarrow> (ustr list \<times> nat) set \<times> table list" where
  "add_table U st tbl =
     (if skipped tbl then st
      else
        let normed = norm_of U tbl; key = fingerprint normed
        in if key \<in> fst st then st else (insert key (fst st), snd st @ [normed]))"

text \<open>\<open>tables\<close> is \<open>None\<close> after an exception, and \<open>tables or []\<close> is then the empty list.\<close>

definition tables_or_empty :: "grid list outcome \<Rightarrow> grid list" where
  "tables_or_empty r = (case r of Raises \<Rightarrow> [] | Returns tables \<Rightarrow> tables)"

definition run_mode :: "unicode_tables \<Rightarrow> pdf_page
     \<Rightarrow> (ustr list \<times> nat) set \<times> table list \<Rightarrow> strategy \<Rightarrow> (ustr list \<times> nat) set \<times> table list" where
  "run_mode U page st mode = foldl (add_table U) st (tables_or_empty (page mode))"

definition page_tables :: "unicode_tables \<Rightarrow> pdf_page \<Rightarrow> table list" where
  "page_tables U page = snd (foldl (run_mode U page) ({}, []) strategies)"

definition extract_tables :: "unicode_tables \<Rightarrow> pdf_page list \<Rightarrow> (nat \<rightharpoonup> table list)" where
  "extract_tables U pages =
     foldl (\<lambda>tables_by_page (i, page).
              if page_tables U page \<noteq> [] then tables_by_page(i \<mapsto> page_tables U page)
              else tables_by_page)
           Map.empty (enumerate 0 pages)"

section \<open>Content merger\<close>

text \<open>
  A coordinate of a bounding box is a Python number: an \<open>int\<close>, or a finite \<open>float\<close>
  given by its value (NaN and the infinities, on which \<open>sorted\<close> has no order to follow,
  are left out). \<open>float(x)\<close> returns a float as it is. It rounds an int to the nearest
  binary64 number, to the even one of two nearest: an int below \<open>2\<^sup>5\<^sup>3\<close> in absolute value
  is kept, a larger one is a multiple of its unit in the last place \<open>ulp_of\<close> after
  rounding, and \<open>float\<close> raises \<open>OverflowError\<close> (\<open>None\<close>) when the rounded value reaches
  \<open>2\<^sup>1\<^sup>0\<^sup>2\<^sup>4\<close>. The sentinel \<open>1e9\<close> is \<open>10 ^ 9\<close>.
\<close>

datatype number = PyInt int | PyFloat rat

fun ulp_of :: "nat \<Rightarrow> nat" where
  "ulp_of a = (if a < 2 ^ 53 then 1 else 2 * ulp_of (a div 2))"

definition round_half_even :: "rat \<Rightarrow> int" where
  "round_half_even x =
     (let f = \<lfloor>x\<rfloor>; d = x - of_int f
      in if d < 1 / 2 then f else if 1 / 2 < d then f + 1 else if even f then f else f + 1)"

definition float_of_int :: "int \<Rightarrow> rat option" where
  "float_of_int n =
     (let a = nat \<bar>n\<bar>; u = ulp_of a;
          r = round_half_even (of_nat a / of_nat u) * int u
      in if 2 ^ 1024 \<le> r then None else Some (of_int (sgn n * r)))"

definition float_of_number :: "number \<Rightarrow> rat option" where
  "float_of_number x = (case x of PyInt n \<Rightarrow> float_of_int n | PyFloat q \<Rightarrow> Some q)"

record content_item =
  ci_type :: ustr
  ci_section :: "ustr option"
  ci_sub_section :: "ustr option"
  ci_text :: "ustr option"
  ci_table :: "table option"
  ci_bbox :: "number list option"
  ci_meta :: "(ustr \<times> ustr) list option"

record page_out =
  page_number :: nat
  content :: "content_item list"

definition table_item :: "table \<Rightarrow> content_item" where
  "table_item t =
     \<lparr>ci_type = str ''table'', ci_section = None, ci_sub_section = None, ci_text = None,
      ci_table = Some t, ci_bbox = None, ci_meta = None\<rparr>"

definition type_order :: "ustr \<Rightarrow> nat" where
  "type_order t =
     (if t = str ''heading'' then 0 else if t = str ''paragraph'' then 1
      else if t = str ''table'' then 2 else if t = str ''chart'' then 3 else 4)"

text \<open>
  \<open>sort_key\<close>: \<open>y\<close> is the sentinel unless the box is a non-empty list of at least two
  entries and \<open>float(ci.bbox[1])\<close> does not raise.
\<close>

definition sort_key_item :: "content_item \<Rightarrow> nat \<times> rat" where
  "sort_key_item ci =
     (type_order (ci_type ci),
      (case ci_bbox ci of
         None \<Rightarrow> 10 ^ 9
       | Some b \<Rightarrow>
           if b \<noteq> [] \<and> 2 \<le> length b
           then (case float_of_number (b ! 1) of None \<Rightarrow> 10 ^ 9 | Some y \<Rightarrow> y)
           else 10 ^ 9))"

text \<open>
  \<open>sorted(page.content, key=sort_key)\<close> is the stable sort by the key; the pages are
  updated in place in the source and returned here.
\<close>

definition merged_content :: "(nat \<rightharpoonup> table list) \<Rightarrow> nat \<Rightarrow> page_out \<Rightarrow> content_item list" where
  "merged_content tables_by_page i page =
     content page @ (case tables_by_page i of None \<Rightarrow> [] | Some ts \<Rightarrow> map table_item ts)"

definition merge_tables_into_pages :: "page_out list \<Rightarrow> (nat \<rightharpoonup> table list) \<Rightarrow> page_out list" where
  "merge_tables_into_pages pages tables_by_page =
     map (\<lambda>(i, page). page\<lparr>content := sort_key sort_key_item (merged_content tables_by_page i page)\<rparr>)
         (enumerate 0 pages)"

lemmas table_evals = clean_cell_def rx_ends_alpha_def rx_short_lower_def cond_short_def
  cond_alpha_cont_def cond_percent_split_def pop_trailing_empty_def normalize_table_def
  strategies_def blank_cell_def skipped_def unnone_def norm_of_def fingerprint_def add_table_def
  tables_or_empty_def run_mode_def page_tables_def

lemmas merge_evals = table_item_def type_order_def sort_key_item_def merged_content_def
  merge_tables_into_pages_def float_of_number_def

section \<open>Page content assembler: \<open>push_text\<close>\<close>

text \<open>
  \<open>push_text\<close> is a closure over \<open>current_section\<close>, \<open>current_sub\<close> and \<open>items\<close> of
  \<open>group_page_content\<close>; they are the state it takes and returns.
\<close>

record assembler =
  current_section :: "ustr option"
  current_sub :: "ustr option"
  items :: "content_item list"

text \<open>\<open>(?<=[.!?])\s+(?=[A-Z])\<close>\<close>

definition is_sentence_end :: "nat \<Rightarrow> bool" where
  "is_sentence_end c = (c = 46 \<or> c = 33 \<or> c = 63)"

definition rx_sentence_gap :: rx where
  "rx_sentence_gap = seqs [Behind is_sentence_end, Rep is_space 1 None, Ahead is_upper]"

definition heading_item :: "ustr option \<Rightarrow> ustr option \<Rightarrow> ustr \<Rightarrow> number list option \<Rightarrow> content_item" where
  "heading_item sec sub txt bbox =
     \<lparr>ci_type = str ''heading'', ci_section = sec, ci_sub_section = sub, ci_text = Some txt,
      ci_table = None, ci_bbox = bbox, ci_meta = None\<rparr>"

definition paragraph_item :: "ustr option \<Rightarrow> ustr option \<Rightarrow> number list option \<Rightarrow> ustr \<Rightarrow> content_item" where
  "paragraph_item sec sub bbox txt =
     \<lparr>ci_type = str ''paragraph'', ci_section = sec, ci_sub_section = sub, ci_text = Some txt,
      ci_table = None, ci_bbox = bbox, ci_meta = None\<rparr>"

definition push_text :: "unicode_tables \<Rightarrow> bool \<Rightarrow> ustr option \<Rightarrow> number list option
                          \<Rightarrow> assembler \<Rightarrow> assembler" where
  "push_text U as_heading text bbox st =
     (case text of
        None \<Rightarrow> st
      | Some t \<Rightarrow>
          let txt = fix_glued_domain_terms U (clean_text U t)
          in if txt = [] \<or> is_noise U txt then st
             else if as_heading then
               (if current_section st = None
                then st\<lparr>current_section := Some txt,
                        items := items st @ [heading_item (Some txt) None txt bbox]\<rparr>
                else st\<lparr>current_sub := Some txt,
                        items := items st @ [heading_item (current_section st) (Some txt) txt bbox]\<rparr>)
             else if 600 < length txt then
               st\<lparr>items := items st @
                     map (paragraph_item (current_section st) (current_sub st) bbox)
                         (filter (\<lambda>part. part \<noteq> [])
                                 (map py_strip (re_split rx_sentence_gap txt)))\<rparr>
             else st\<lparr>items := items st @
                     [paragraph_item (current_section st) (current_sub st) bbox txt]\<rparr>)"

section \<open>Metadata extractor\<close>

text \<open>
  \<open>float(s)\<close> on the text of a numeric capture, which holds decimal digits and dots only:
  it raises (\<open>None\<close>) unless the text is digits with at most one dot and at least one
  digit. The result is the decimal number the text denotes; Python stores the binary64
  number nearest to it, which is also what the literal with the same digits denotes. A
  float is false in a condition when it is zero, and the decimals that round to zero are
  those up to \<open>2\<^sup>-\<^sup>1\<^sup>0\<^sup>7\<^sup>5\<close>.
\<close>

definition digit_value :: "unicode_tables \<Rightarrow> nat \<Rightarrow> nat" where
  "digit_value U c = (if c < 128 then c - 48 else uni_digit_value U c)"

definition digits_value :: "unicode_tables \<Rightarrow> ustr \<Rightarrow> nat" where
  "digits_value U ds = foldl (\<lambda>a c. 10 * a + digit_value U c) 0 ds"

definition py_float :: "unicode_tables \<Rightarrow> ustr \<Rightarrow> rat option" where
  "py_float U s =
     (let ip = takeWhile (is_digit U) s; rest = dropWhile (is_digit U) s
      in case rest of
           [] \<Rightarrow> if ip = [] then None else Some (of_nat (digits_value U ip))
         | c # fp \<Rightarrow>
             if c = 46 \<and> list_all (is_digit U) fp \<and> (ip \<noteq> [] \<or> fp \<noteq> [])
             then Some (of_nat (digits_value U (ip @ fp)) / 10 ^ length fp)
             else None)"

definition float_is_zero :: "rat \<Rightarrow> bool" where
  "float_is_zero q = (q * 2 ^ 1075 \<le> 1)"

record fund_meta =
  name :: "ustr option"
  category :: "ustr option"
  aum_crore :: "rat option"
  monthly_avg_aum :: "rat option"
  expense_ratio_regular :: "rat option"
  expense_ratio_direct :: "rat option"
  benchmark :: "ustr option"
  additional_benchmark :: "ustr option"
  date_of_allotment :: "ustr option"
  managers :: "ustr list"
  doc_date :: "ustr option"

text \<open>\<open>not meta.get(field)\<close>: the field is \<open>None\<close>, the empty string or a zero.\<close>

definition not_str :: "ustr option \<Rightarrow> bool" where
  "not_str v = (case v of None \<Rightarrow> True | Some s \<Rightarrow> s = [])"

definition not_num :: "rat option \<Rightarrow> bool" where
  "not_num v = (case v of None \<Rightarrow> True | Some q \<Rightarrow> float_is_zero q)"

definition months :: "ustr list" where
  "months = map str [''January'', ''February'', ''March'', ''April'', ''May'', ''June'', ''July'',
     ''August'', ''September'', ''October'', ''November'', ''December'']"

text \<open>\<open>(January|...|December)\s+\d{4}\<close>\<close>

definition rx_doc_date :: "unicode_tables \<Rightarrow> rx" where
  "rx_doc_date U =
     seqs [Grp (alts (map lit months)), Rep is_space 1 None, Rep (is_digit U) 4 (Some 4)]"

text \<open>\<open>\s*[:\-]?\s*\<close>, which follows the label in seven patterns.\<close>

definition is_colon_dash :: "nat \<Rightarrow> bool" where
  "is_colon_dash c = (c = 58 \<or> c = 45)"

definition rx_sep :: "rx list" where
  "rx_sep = [Rep is_space 0 None, Opt (Cls is_colon_dash), Rep is_space 0 None]"

text \<open>\<open>Date of Allotment\s*[:\-]?\s*([A-Za-z]+\s+\d{1,2},\s+\d{4})\<close>\<close>

definition rx_allotment :: "unicode_tables \<Rightarrow> rx" where
  "rx_allotment U =
     seqs ([lit (str ''Date of Allotment'')] @ rx_sep @
           [Grp (seqs [Rep is_alpha 1 None, Rep is_space 1 None, Rep (is_digit U) 1 (Some 2),
                       chr 44, Rep is_space 1 None, Rep (is_digit U) 4 (Some 4)])])"

text \<open>
  \<open>Benchmark(?: Index)?\s*[:\-]?\s*([A-Za-z0-9\s\-\&]+)\<close> and
  \<open>Additional Benchmark(?: Index)?\s*[:\-]?\s*([A-Za-z0-9\s\-\&]+)\<close>
\<close>

definition is_bench_char :: "nat \<Rightarrow> bool" where
  "is_bench_char c = (is_alpha c \<or> is_ascii_digit c \<or> is_space c \<or> c = 45 \<or> c = 38)"

definition rx_benchmark :: "ustr \<Rightarrow> rx" where
  "rx_benchmark label =
     seqs ([lit label, Opt (lit (str '' Index''))] @ rx_sep @ [Grp (Rep is_bench_char 1 None)])"

text \<open>
  \<open>Net AUM\s*[:\-]?\s*[R` ]*([\d,]+\.?\d*)\s*crore\<close> and the same with
  \<open>Monthly Average AUM\<close>, with \<open>re.IGNORECASE\<close>; \<open>R\<close> stands for the rupee sign
  U+20B9 of the source.
\<close>

definition is_currency_mark :: "nat \<Rightarrow> bool" where
  "is_currency_mark c = (c = 8377 \<or> c = 96 \<or> c = 32)"

definition rx_aum :: "unicode_tables \<Rightarrow> ustr \<Rightarrow> rx" where
  "rx_aum U label =
     seqs ([lit_i U label] @ rx_sep @
           [Rep is_currency_mark 0 None,
            Grp (seqs [Rep (\<lambda>c. is_digit U c \<or> c = 44) 1 None, Opt (chr 46),
                       Rep (is_digit U) 0 None]),
            Rep is_space 0 None, lit_i U (str ''crore'')])"

text \<open>\<open>Regular Plan\s*[:\-]?\s*([\d\.]+)%\<close> and the same with \<open>Direct Plan\<close>, with \<open>re.IGNORECASE\<close>.\<close>

definition rx_expense :: "unicode_tables \<Rightarrow> ustr \<Rightarrow> rx" where
  "rx_expense U label =
     seqs ([lit_i U label] @ rx_sep @ [Grp (Rep (\<lambda>c. is_digit U c \<or> c = 46) 1 None), chr 37])"

text \<open>\<open>Fund Manager\<close> with \<open>re.IGNORECASE\<close>.\<close>

definition rx_fund_manager :: "unicode_tables \<Rightarrow> rx" where
  "rx_fund_manager U = lit_i U (str ''Fund Manager'')"

text \<open>
  \<open>(?:Fund Manager|Co-? ?Fund Manager)\s*(?:[:\-]?)\s*(?:Mr\.|Ms\.|Mrs\.)?\s*([A-Z][A-Za-z\.\- ]{2,})\<close>
  and \<open>Mr\.?\s*([A-Z][A-Za-z\.\- ]{2,})\<close>
\<close>

definition is_name_char :: "nat \<Rightarrow> bool" where
  "is_name_char c = (is_alpha c \<or> c = 46 \<or> c = 45 \<or> c = 32)"

definition rx_honorifics :: rx where
  "rx_honorifics = alts [lit (str ''Mr.''), lit (str ''Ms.''), lit (str ''Mrs.'')]"

definition rx_person :: rx where
  "rx_person = Grp (seqs [Cls is_upper, Rep is_name_char 2 None])"

definition rx_manager_names :: rx where
  "rx_manager_names =
     seqs ([Alt (lit (str ''Fund Manager''))
                (seqs [lit (str ''Co''), Opt (chr 45), Opt (chr 32), lit (str ''Fund Manager'')])]
           @ rx_sep @ [Opt rx_honorifics, Rep is_space 0 None, rx_person])"

definition rx_mr_names :: rx where
  "rx_mr_names = seqs [lit (str ''Mr''), Opt (chr 46), Rep is_space 0 None, rx_person]"

text \<open>\<open>\b(Equity|Debt|Hybrid|Fixed Income)\b\<close>, \<open>\([^)]*\)\<close> and \<open>^(Mr\.|Ms\.|Mrs\.)\s*\<close>\<close>

definition rx_role :: "unicode_tables \<Rightarrow> rx" where
  "rx_role U =
     seqs [Wb (is_word U),
           Grp (alts [lit (str ''Equity''), lit (str ''Debt''), lit (str ''Hybrid''),
                      lit (str ''Fixed Income'')]),
           Wb (is_word U)]"

definition rx_parenthetical :: rx where
  "rx_parenthetical = seqs [chr 40, Rep (\<lambda>c. c \<noteq> 41) 0 None, chr 41]"

definition rx_leading_honorific :: rx where
  "rx_leading_honorific = seqs [Bos, Grp rx_honorifics, Rep is_space 0 None]"

text \<open>The four statements that turn a captured \<open>mname\<close> into \<open>name\<close>.\<close>

definition manager_name :: "unicode_tables \<Rightarrow> ustr \<Rightarrow> ustr" where
  "manager_name U mname =
     (let n = py_strip (re_sub (rx_role U) (\<lambda>g. []) mname);
          n = py_strip (re_sub rx_parenthetical (\<lambda>g. []) n);
          n = py_join [32] (py_split n)
      in re_sub rx_leading_honorific (\<lambda>g. []) n)"

text \<open>The state of the loop: the dictionary \<open>meta\<close>, \<open>seen_managers\<close> and \<open>buffer\<close>.\<close>

record extraction =
  meta :: fund_meta
  seen_managers :: "ustr set"
  buffer :: ustr

definition add_manager :: "unicode_tables \<Rightarrow> extraction \<Rightarrow> ustr \<Rightarrow> extraction" where
  "add_manager U st mname =
     (let n = manager_name U mname
      in if n \<noteq> [] \<and> n \<notin> seen_managers st
         then st\<lparr>seen_managers := insert n (seen_managers st),
                 meta := (meta st)\<lparr>managers := managers (meta st) @ [n]\<rparr>\<rparr>
         else st)"

text \<open>\<open>" ".join(re.sub(r"([a-z])([A-Z])", r"\1 \2", s).split())\<close>\<close>

definition deglue :: "ustr \<Rightarrow> ustr" where
  "deglue s = py_join [32] (py_split (re_sub rx_lower_upper spaced s))"

definition name_rule :: "unicode_tables \<Rightarrow> fund_meta \<Rightarrow> ustr \<Rightarrow> bool" where
  "name_rule U mt text =
     (not_str (name mt) \<and> contains (py_upper U text) (str ''FUND'') \<and> length text < 120
      \<and> \<not> startswith (py_upper U text) (str ''JUNE''))"

definition category_rule :: "fund_meta \<Rightarrow> ustr \<Rightarrow> bool" where
  "category_rule mt text =
     (\<not> not_str (name mt) \<and> not_str (category mt)
      \<and> startswith (py_strip text) [40] \<and> endswith (py_strip text) [41])"

text \<open>\<open>raw[1:-1]\<close>\<close>

definition inner :: "ustr \<Rightarrow> ustr" where
  "inner raw = butlast (tl raw)"

definition category_of :: "unicode_tables \<Rightarrow> ustr \<Rightarrow> ustr" where
  "category_of U text =
     py_strip (py_join [32] (py_split
       (fix_glued_domain_terms U (clean_text U (py_strip (inner (py_strip text)))))))"

text \<open>The seven labeled-value rules, in the order of the source; each leaves a set field alone.\<close>

definition set_date_of_allotment :: "unicode_tables \<Rightarrow> ustr \<Rightarrow> fund_meta \<Rightarrow> fund_meta" where
  "set_date_of_allotment U text mt =
     (if not_str (date_of_allotment mt) then
        (case re_search (rx_allotment U) text of
           None \<Rightarrow> mt
         | Some (w, g) \<Rightarrow> mt\<lparr>date_of_allotment := Some (grp g 0)\<rparr>)
      else mt)"

definition set_benchmark :: "ustr \<Rightarrow> fund_meta \<Rightarrow> fund_meta" where
  "set_benchmark text mt =
     (if not_str (benchmark mt) then
        (case re_search (rx_benchmark (str ''Benchmark'')) text of
           None \<Rightarrow> mt
         | Some (w, g) \<Rightarrow> mt\<lparr>benchmark := Some (deglue (grp g 0))\<rparr>)
      else mt)"

definition set_additional_benchmark :: "ustr \<Rightarrow> fund_meta \<Rightarrow> fund_meta" where
  "set_additional_benchmark text mt =
     (if not_str (additional_benchmark mt) then
        (case re_search (rx_benchmark (str ''Additional Benchmark'')) text of
           None \<Rightarrow> mt
         | Some (w, g) \<Rightarrow> mt\<lparr>additional_benchmark := Some (deglue (grp g 0))\<rparr>)
      else mt)"

text \<open>\<open>float(m.group(1).replace(",", ""))\<close>\<close>

definition amount :: "unicode_tables \<Rightarrow> ustr \<Rightarrow> rat option" where
  "amount U w = py_float U (filter (\<lambda>c. c \<noteq> 44) w)"

definition set_aum_crore :: "unicode_tables \<Rightarrow> ustr \<Rightarrow> fund_meta \<Rightarrow> fund_meta" where
  "set_aum_crore U text mt =
     (if not_num (aum_crore mt) then
        (case re_search (rx_aum U (str ''Net AUM'')) text of
           None \<Rightarrow> mt
         | Some (w, g) \<Rightarrow>
             (case amount U (grp g 0) of None \<Rightarrow> mt | Some v \<Rightarrow> mt\<lparr>aum_crore := Some v\<rparr>))
      else mt)"

definition set_monthly_avg_aum :: "unicode_tables \<Rightarrow> ustr \<Rightarrow> fund_meta \<Rightarrow> fund_meta" where
  "set_monthly_avg_aum U text mt =
     (if not_num (monthly_avg_aum mt) then
        (case re_search (rx_aum U (str ''Monthly Average AUM'')) text of
           None \<Rightarrow> mt
         | Some (w, g) \<Rightarrow>
             (case amount U (grp g 0) of None \<Rightarrow> mt | Some v \<Rightarrow> mt\<lparr>monthly_avg_aum := Some v\<rparr>))
      else mt)"

definition set_expense_ratio_regular :: "unicode_tables \<Rightarrow> ustr \<Rightarrow> fund_meta \<Rightarrow> fund_meta" where
  "set_expense_ratio_regular U text mt =
     (if not_num (expense_ratio_regular mt) then
        (case re_search (rx_expense U (str ''Regular Plan'')) text of
           None \<Rightarrow> mt
         | Some (w, g) \<Rightarrow>
             (case py_float U (grp g 0) of
                None \<Rightarrow> mt | Some v \<Rightarrow> mt\<lparr>expense_ratio_regular := Some v\<rparr>))
      else mt)"

definition set_expense_ratio_direct :: "unicode_tables \<Rightarrow> ustr \<Rightarrow> fund_meta \<Rightarrow> fund_meta" where
  "set_expense_ratio_direct U text mt =
     (if not_num (expense_ratio_direct mt) then
        (case re_search (rx_expense U (str ''Direct Plan'')) text of
           None \<Rightarrow> mt
         | Some (w, g) \<Rightarrow>
             (case py_float U (grp g 0) of
                None \<Rightarrow> mt | Some v \<Rightarrow> mt\<lparr>expense_ratio_direct := Some v\<rparr>))
      else mt)"

definition labeled_values :: "unicode_tables \<Rightarrow> ustr \<Rightarrow> fund_meta \<Rightarrow> fund_meta" where
  "labeled_values U text mt =
     set_expense_ratio_direct U text (set_expense_ratio_regular U text
       (set_monthly_avg_aum U text (set_aum_crore U text
         (set_additional_benchmark text (set_benchmark text
           (set_date_of_allotment U text mt))))))"

text \<open>
  The two manager rules, after the labeled values: \<open>buffer\<close> takes the text, the names
  found in it are added, and \<open>buffer\<close> is emptied.
\<close>

definition manager_rules :: "unicode_tables \<Rightarrow> ustr \<Rightarrow> extraction \<Rightarrow> extraction" where
  "manager_rules U text st =
     (if re_search (rx_fund_manager U) text \<noteq> None then
        (foldl (add_manager U) st (re_findall1 rx_manager_names (buffer st @ [32] @ text)))
          \<lparr>buffer := []\<rparr>
      else if buffer st \<noteq> [] \<and> startswith text (str ''Mr.'') then
        (foldl (add_manager U) st (re_findall1 rx_mr_names (buffer st @ [32] @ text)))
          \<lparr>buffer := []\<rparr>
      else st)"

text \<open>
  The text of a content item that the loop looks at: the item is a paragraph or a heading
  with a non-empty text, and its cleaned text is not noise.
\<close>

definition item_text :: "unicode_tables \<Rightarrow> content_item \<Rightarrow> ustr option" where
  "item_text U c =
     (if (ci_type c \<noteq> str ''paragraph'' \<and> ci_type c \<noteq> str ''heading'') \<or> not_str (ci_text c)
      then None
      else
        let text = fix_glued_domain_terms U (clean_text U (case ci_text c of None \<Rightarrow> [] | Some t \<Rightarrow> t))
        in if is_noise U text then None else Some text)"

text \<open>The body of the loop over the content items; each \<open>continue\<close> is a branch that returns.\<close>

definition step :: "unicode_tables \<Rightarrow> extraction \<Rightarrow> content_item \<Rightarrow> extraction" where
  "step U st c =
     (case item_text U c of
        None \<Rightarrow> st
      | Some text \<Rightarrow>
          if name_rule U (meta st) text
          then st\<lparr>meta := (meta st)\<lparr>name := Some (py_strip (deglue text))\<rparr>\<rparr>
          else if category_rule (meta st) text
          then st\<lparr>meta := (meta st)\<lparr>category := Some (category_of U text)\<rparr>\<rparr>
          else manager_rules U text (st\<lparr>meta := labeled_values U text (meta st)\<rparr>))"

definition empty_meta :: fund_meta where
  "empty_meta =
     \<lparr>name = None, category = None, aum_crore = None, monthly_avg_aum = None,
      expense_ratio_regular = None, expense_ratio_direct = None, benchmark = None,
      additional_benchmark = None, date_of_allotment = None, managers = [], doc_date = None\<rparr>"

definition initial :: "unicode_tables \<Rightarrow> ustr \<Rightarrow> extraction" where
  "initial U cover_text =
     \<lparr>meta = empty_meta\<lparr>doc_date :=
               (case re_search (rx_doc_date U) cover_text of None \<Rightarrow> None | Some (w, g) \<Rightarrow> Some w)\<rparr>,
      seen_managers = {}, buffer = []\<rparr>"

text \<open>The state after the items \<open>cs\<close>, taken in order, from the state \<open>st\<close>.\<close>

definition run :: "unicode_tables \<Rightarrow> extraction \<Rightarrow> content_item list \<Rightarrow> extraction" where
  "run U st cs = foldl (step U) st cs"

definition extract_fund_metadata_from_content :: "unicode_tables \<Rightarrow> page_out list \<Rightarrow> ustr \<Rightarrow> fund_meta" where
  "extract_fund_metadata_from_content U pages cover_text =
     meta (run U (initial U cover_text) (concat (map content pages)))"

lemmas push_evals = is_sentence_end_def rx_sentence_gap_def heading_item_def paragraph_item_def
  push_text_def

lemmas meta_evals = digit_value_def digits_value_def py_float_def float_is_zero_def not_str_def
  not_num_def months_def rx_doc_date_def is_colon_dash_def rx_sep_def rx_allotment_def
  is_bench_char_def rx_benchmark_def is_currency_mark_def rx_aum_def rx_expense_def
  rx_fund_manager_def is_name_char_def rx_honorifics_def rx_person_def rx_manager_names_def
  rx_mr_names_def rx_role_def rx_parenthetical_def rx_leading_honorific_def manager_name_def
  add_manager_def deglue_def name_rule_def category_rule_def inner_def category_of_def
  set_date_of_allotment_def set_benchmark_def set_additional_benchmark_def amount_def
  set_aum_crore_def set_monthly_avg_aum_def set_expense_ratio_regular_def
  set_expense_ratio_direct_def labeled_values_def manager_rules_def item_text_def step_def
  empty_meta_def initial_def run_def extract_fund_metadata_from_content_def

section \<open>Notions used in the statements\<close>

text \<open>
  Tables that classify no code point above 127, for closed statements about ASCII texts
  (on which no function looks at the tables).
\<close>

definition ascii_only :: unicode_tables where
  "ascii_only =
     \<lparr>uni_decimal = (\<lambda>c. False), uni_alnum = (\<lambda>c. False), uni_upper = (\<lambda>c. [c]),
      uni_caseless = (\<lambda>c l. False), uni_digit_value = (\<lambda>c. 0)\<rparr>"

text \<open>Keeping, of the elements with the same key, the first one only.\<close>

fun first_seen :: "('a \<Rightarrow> 'k) \<Rightarrow> 'a list \<Rightarrow> 'a list" where
  "first_seen f [] = []"
| "first_seen f (x # xs) = x # first_seen f (filter (\<lambda>y. f y \<noteq> f x) xs)"

text \<open>
  The normalized tables of a page in the order they are met: the grids of the line
  strategy, then those of the text strategy, without the grids that are skipped.
\<close>

definition candidates :: "unicode_tables \<Rightarrow> pdf_page \<Rightarrow> table list" where
  "candidates U page =
     map (norm_of U)
         (filter (\<lambda>tbl. \<not> skipped tbl) (tables_or_empty (page Lines) @ tables_or_empty (page Text)))"

text \<open>Items and pages of the examples.\<close>

definition text_item :: "string \<Rightarrow> string \<Rightarrow> number list option \<Rightarrow> content_item" where
  "text_item ty t bbox =
     \<lparr>ci_type = str ty, ci_section = None, ci_sub_section = None, ci_text = Some (str t),
      ci_table = None, ci_bbox = bbox, ci_meta = None\<rparr>"

definition at_top :: "rat \<Rightarrow> number list option" where
  "at_top y = Some [PyFloat 72, PyFloat y, PyFloat 540, PyFloat (y + 12)]"

text \<open>The box \<open>[0, 0, 0, 0]\<close> of a chart placeholder, and a box whose top is the int \<open>n\<close>.\<close>

definition zero_box :: "number list option" where
  "zero_box = Some [PyInt 0, PyInt 0, PyInt 0, PyInt 0]"

definition at_int_top :: "int \<Rightarrow> number list option" where
  "at_int_top n = Some [PyInt 0, PyInt n, PyInt 0, PyInt 0]"

definition one_page :: "content_item list \<Rightarrow> page_out list" where
  "one_page cs = [\<lparr>page_number = 1, content = cs\<rparr>]"

definition nav_grid :: grid where
  "nav_grid = [[Some (str ''Scheme Name''), Some (str ''NAV'')], [Some (str ''A''), Some (str ''1'')]]"

definition nav_grid_spaced :: grid where
  "nav_grid_spaced =
     [[Some (str '' Scheme  Name''), Some (str ''NAV '')], [Some (str ''B''), None]]"

definition two_grids :: "grid \<Rightarrow> grid \<Rightarrow> pdf_page" where
  "two_grids g1 g2 mode = (case mode of Lines \<Rightarrow> Returns [g1] | Text \<Rightarrow> Returns [g2])"

definition nav_page :: pdf_page where
  "nav_page = two_grids nav_grid nav_grid_spaced"

definition empty_page :: pdf_page where
  "empty_page mode = Returns []"

text \<open>
  A grid with blank cells only, a grid with the same header row and as many rows that holds
  a value, and a grid with another header.
\<close>

definition blank_grid :: grid where
  "blank_grid = [[None, Some (str '' '')], [None, None]]"

definition x_grid :: grid where
  "x_grid = [[None, None], [Some (str ''x''), None]]"

definition fund_grid :: grid where
  "fund_grid = [[Some (str ''Fund''), Some (str ''NAV'')], [Some (str ''A''), Some (str ''1'')]]"

text \<open>The normalized headers and the number of rows of a table.\<close>

definition shape :: "table \<Rightarrow> ustr list \<times> nat" where
  "shape t = (headers t, length (rows t))"

lemmas example_evals = ascii_only_def candidates_def text_item_def at_top_def one_page_def
  nav_grid_def nav_grid_spaced_def two_grids_def nav_page_def empty_page_def blank_grid_def
  x_grid_def fund_grid_def zero_box_def at_int_top_def



text \<open>
  What the loop keeps true of its state: \<open>buffer\<close> is empty between two items, and
  \<open>seen_managers\<close> holds the entries of \<open>managers\<close>, which are pairwise different.
\<close>

definition between_items :: "extraction \<Rightarrow> bool" where
  "between_items st =
     (buffer st = [] \<and> seen_managers st = set (managers (meta st)) \<and> distinct (managers (meta st)))"


definition john_smith_equity :: content_item where
  "john_smith_equity = text_item ''paragraph'' ''Fund Manager: Mr. John Smith (Equity)'' (at_top 300)"

definition john_smith_debt :: content_item where
  "john_smith_debt = text_item ''paragraph'' ''Co-Fund Manager - Mr. John Smith (Debt)'' (at_top 400)"

definition fund_heading :: content_item where
  "fund_heading = text_item ''heading'' ''ABC Equity Fund'' (at_top 50)"





definition john_smith :: ustr where
  "john_smith = str ''John Smith''"

definition add_once :: "ustr \<Rightarrow> ustr list \<Rightarrow> ustr list" where
  "add_once n ms = (if n \<in> set ms then ms else ms @ [n])"

definition zero_aum :: content_item where
  "zero_aum = text_item ''paragraph'' ''Net AUM : 0 crore'' (at_top 100)"

definition five_aum :: content_item where
  "five_aum = text_item ''paragraph'' ''Net AUM : 5 crore'' (at_top 200)"

definition manager_of_fund :: content_item where
  "manager_of_fund = text_item ''paragraph'' ''Fund Manager: Mr. Ravi Kumar'' (at_top 100)"


section \<open>Table normalizer: fragment merging\<close>

text \<open>
  C3 (as amended). On the header \<open>["12", "3%Yo", "Y"]\<close> the short-pair rule holds of the
  first two cells (lengths 2 and 4), so they are merged into \<open>"12 3%Yo"\<close>; that cell is
  too long for the short-pair rule, and the percent-split rule merges it with \<open>"Y"\<close>. The
  result is the single cell \<open>"12 3%Yo Y"\<close>, from \<open>merge_fragments\<close> and from
  \<open>normalize_table\<close> alike.
\<close>

theorem merge_fragments_percent_header:
  "cond_short (str ''12'') (str ''3%Yo'')
   \<and> \<not> cond_short (str ''12 3%Yo'') (str ''Y'')
   \<and> cond_percent_split (str ''12 3%Yo'') (str ''Y'')
   \<and> merge_fragments [str ''12'', str ''3%Yo'', str ''Y''] = [str ''12 3%Yo Y'']
   \<and> headers (normalize_table U
        \<lparr>in_headers = [Some (str ''12''), Some (str ''3%Yo''), Some (str ''Y'')], in_rows = []\<rparr>)
      = [str ''12 3%Yo Y'']"
  by (simp add: str_evals rx_evals text_evals table_evals)

text \<open>
  C3 as stated fails: the header \<open>["12", "3%Yo", "Y"]\<close> is not mapped to
  \<open>["12", "3%Yo Y"]\<close>, the first cell does not stay separate.
\<close>

theorem merge_fragments_first_cell_not_separate:
  "merge_fragments [str ''12'', str ''3%Yo'', str ''Y''] \<noteq> [str ''12'', str ''3%Yo Y'']"
  by (simp add: str_evals rx_evals text_evals table_evals)

section \<open>Table extractor: deduplication and failure isolation\<close>

lemma set_first_seen: "set (first_seen f xs) \<subseteq> set xs"
  by (induction f xs rule: first_seen.induct) auto

lemma distinct_first_seen: "distinct (map f (first_seen f xs))"
proof (induction f xs rule: first_seen.induct)
  case (1 f)
  then show ?case by simp
next
  case (2 f x xs)
  have "f x \<notin> f ` set (first_seen f (filter (\<lambda>y. f y \<noteq> f x) xs))"
    using set_first_seen [of f "filter (\<lambda>y. f y \<noteq> f x) xs"] by auto
  with 2 show ?case by simp
qed

lemma subseq_first_seen: "subseq (first_seen f xs) xs"
proof (induction f xs rule: first_seen.induct)
  case (1 f)
  then show ?case by simp
next
  case (2 f x xs)
  have "subseq (filter (\<lambda>y. f y \<noteq> f x) xs) xs"
    by simp
  with 2 have "subseq (first_seen f (filter (\<lambda>y. f y \<noteq> f x) xs)) xs"
    by (rule subseq_order.trans)
  then show ?case by simp
qed

lemma find_filter_weaker:
  assumes "\<And>y. P y \<Longrightarrow> Q y"
  shows "find P (filter Q xs) = find P xs"
  using assms by (induction xs) auto

lemma find_first_seen:
  "t \<in> set (first_seen f xs) \<Longrightarrow> find (\<lambda>c. f c = f t) xs = Some t"
proof (induction f xs rule: first_seen.induct)
  case (1 f)
  then show ?case by simp
next
  case (2 f x xs)
  show ?case
  proof (cases "t = x")
    case True
    then show ?thesis by simp
  next
    case False
    with 2(2) have mem: "t \<in> set (first_seen f (filter (\<lambda>y. f y \<noteq> f x) xs))"
      by simp
    with set_first_seen [of f "filter (\<lambda>y. f y \<noteq> f x) xs"] have ne: "f t \<noteq> f x"
      by auto
    have "find (\<lambda>c. f c = f t) (filter (\<lambda>y. f y \<noteq> f x) xs) = find (\<lambda>c. f c = f t) xs"
      using ne by (intro find_filter_weaker) simp
    with 2(1) [OF mem] ne show ?thesis by auto
  qed
qed

lemma filter_insert_key:
  "filter (\<lambda>t. f t \<notin> insert k S) xs = filter (\<lambda>y. f y \<noteq> k) (filter (\<lambda>t. f t \<notin> S) xs)"
  by (induction xs) auto

lemma foldl_add_table:
  "foldl (add_table U) (S, pts) gs =
     (S \<union> fingerprint ` set (map (norm_of U) (filter (\<lambda>tbl. \<not> skipped tbl) gs)),
      pts @ first_seen fingerprint
              (filter (\<lambda>t. fingerprint t \<notin> S)
                      (map (norm_of U) (filter (\<lambda>tbl. \<not> skipped tbl) gs))))"
proof (induction gs arbitrary: S pts)
  case Nil
  then show ?case by simp
next
  case (Cons g gs)
  let ?k = "fingerprint (norm_of U g)"
  let ?rest = "map (norm_of U) (filter (\<lambda>tbl. \<not> skipped tbl) gs)"
  show ?case
  proof (cases "skipped g")
    case True
    then have "foldl (add_table U) (S, pts) (g # gs) = foldl (add_table U) (S, pts) gs"
      by (simp add: add_table_def)
    with True show ?thesis by (simp add: Cons)
  next
    case False
    show ?thesis
    proof (cases "?k \<in> S")
      case True
      with False have "foldl (add_table U) (S, pts) (g # gs) = foldl (add_table U) (S, pts) gs"
        by (simp add: add_table_def)
      with False True show ?thesis by (auto simp add: Cons)
    next
      case nin: False
      with False have "foldl (add_table U) (S, pts) (g # gs)
          = foldl (add_table U) (insert ?k S, pts @ [norm_of U g]) gs"
        by (simp add: add_table_def Let_def)
      also have "\<dots> = (insert ?k S \<union> fingerprint ` set ?rest,
          (pts @ [norm_of U g]) @ first_seen fingerprint
             (filter (\<lambda>t. fingerprint t \<notin> insert ?k S) ?rest))"
        by (rule Cons)
      also have "filter (\<lambda>t. fingerprint t \<notin> insert ?k S) ?rest
          = filter (\<lambda>y. fingerprint y \<noteq> ?k) (filter (\<lambda>t. fingerprint t \<notin> S) ?rest)"
        by (rule filter_insert_key)
      finally show ?thesis using False nin by simp
    qed
  qed
qed

lemma first_seen_append:
  "first_seen f (xs @ ys) = first_seen f xs @ first_seen f (filter (\<lambda>y. f y \<notin> f ` set xs) ys)"
proof (induction f xs arbitrary: ys rule: first_seen.induct)
  case (1 f)
  then show ?case by simp
next
  case (2 f x xs)
  let ?xs = "filter (\<lambda>y. f y \<noteq> f x) xs" and ?ys = "filter (\<lambda>y. f y \<noteq> f x) ys"
  have "filter (\<lambda>y. f y \<notin> f ` set ?xs) ?ys = filter (\<lambda>y. f y \<notin> f ` set (x # xs)) ys"
    by (induction ys) auto
  moreover have "first_seen f ((x # xs) @ ys) = x # first_seen f (?xs @ ?ys)"
    by simp
  moreover have "first_seen f (?xs @ ?ys)
       = first_seen f ?xs @ first_seen f (filter (\<lambda>y. f y \<notin> f ` set ?xs) ?ys)"
    by (rule 2)
  ultimately show ?case by simp
qed

lemma page_tables_eq: "page_tables U page = first_seen fingerprint (candidates U page)"
  by (simp add: page_tables_def strategies_def run_mode_def foldl_add_table candidates_def
      first_seen_append)

lemma extract_tables_fold:
  "foldl (\<lambda>tables_by_page (i, page).
              if f page \<noteq> [] then tables_by_page(i \<mapsto> f page) else tables_by_page)
         d (enumerate n pages) i
   = (if n \<le> i \<and> i < n + length pages \<and> f (pages ! (i - n)) \<noteq> []
      then Some (f (pages ! (i - n))) else d i)"
proof (induction pages arbitrary: n d)
  case Nil
  then show ?case by auto
next
  case (Cons p ps)
  show ?case
    using Cons [where n = "Suc n"] by (auto simp add: nth_Cons' Suc_diff_le not_less_eq_eq)
qed

lemma extract_tables_eq:
  "extract_tables U pages i =
     (if i < length pages \<and> page_tables U (pages ! i) \<noteq> [] then Some (page_tables U (pages ! i))
      else None)"
  unfolding extract_tables_def by (simp add: extract_tables_fold)

lemma page_tables_raises:
  "page_tables U (page(mode := Raises)) = page_tables U (page(mode := Returns []))"
  by (simp add: page_tables_def strategies_def run_mode_def tables_or_empty_def)

lemma page_tables_other_mode:
  "mode' \<noteq> mode \<Longrightarrow>
   page_tables U (page(mode := Raises))
   = first_seen fingerprint
       (map (norm_of U) (filter (\<lambda>tbl. \<not> skipped tbl) (tables_or_empty (page mode'))))"
  by (cases mode; cases mode') (simp_all add: page_tables_eq candidates_def tables_or_empty_def)

lemma shape_fingerprint: "fingerprint = shape"
  by (simp add: fun_eq_iff fingerprint_def shape_def)

lemma page_tables_shape: "page_tables U page = first_seen shape (candidates U page)"
  by (simp add: page_tables_eq shape_fingerprint)

lemma every_key_kept:
  "c \<in> set xs \<Longrightarrow> \<exists>t \<in> set (first_seen f xs). f t = f c"
proof (induction f xs rule: first_seen.induct)
  case (1 f)
  then show ?case by simp
next
  case (2 f x xs)
  show ?case
  proof (cases "f c = f x")
    case True
    then show ?thesis by auto
  next
    case False
    with 2(2) have "c \<in> set (filter (\<lambda>y. f y \<noteq> f x) xs)" by auto
    from 2(1) [OF this] show ?thesis by auto
  qed
qed

lemma two_grids_tables:
  assumes "\<not> skipped g1" "\<not> skipped g2"
  shows "page_tables U (two_grids g1 g2)
         = (if shape (norm_of U g1) = shape (norm_of U g2) then [norm_of U g1]
            else [norm_of U g1, norm_of U g2])"
  using assms by (simp add: page_tables_shape candidates_def tables_or_empty_def two_grids_def)

lemma skipped_first_tables:
  assumes "skipped g1"
  shows "page_tables U (two_grids g1 g2) = (if skipped g2 then [] else [norm_of U g2])"
  using assms by (simp add: page_tables_shape candidates_def tables_or_empty_def two_grids_def)

text \<open>
  C6 (as amended). The fingerprint of a table is the pair of its normalized headers and
  the number of its rows. The tables kept for a page are taken from the candidates, the
  normalized grids of the line strategy and then of the text strategy without the grids
  that are empty or blank in every cell: for each fingerprint the first candidate is kept
  and no other, in the order of the candidates. So the kept tables have pairwise
  different fingerprints, every candidate has its fingerprint among them, and each kept
  table is the first candidate with its headers and its number of rows. Of two grids
  that are not skipped, one from each strategy, the first alone is kept when the
  normalized headers and the numbers of rows are the same, and both are kept when they
  differ; a skipped grid is passed over, whatever its fingerprint. A page index is a key
  of the result exactly when the page kept a table, and its value is the kept list.
\<close>

theorem tables_deduplicated:
  "fingerprint t = (headers t, length (rows t))
   \<and> page_tables U page = first_seen (\<lambda>t. (headers t, length (rows t))) (candidates U page)
   \<and> subseq (page_tables U page) (candidates U page)
   \<and> distinct (map (\<lambda>t. (headers t, length (rows t))) (page_tables U page))
   \<and> (\<forall>c \<in> set (candidates U page). \<exists>t \<in> set (page_tables U page).
         headers t = headers c \<and> length (rows t) = length (rows c))
   \<and> (\<forall>t \<in> set (page_tables U page).
         find (\<lambda>c. headers c = headers t \<and> length (rows c) = length (rows t)) (candidates U page)
         = Some t)
   \<and> (\<not> skipped g1 \<and> \<not> skipped g2 \<longrightarrow>
        page_tables U (two_grids g1 g2)
        = (if headers (norm_of U g1) = headers (norm_of U g2)
              \<and> length (rows (norm_of U g1)) = length (rows (norm_of U g2))
           then [norm_of U g1] else [norm_of U g1, norm_of U g2]))
   \<and> (skipped g1 \<longrightarrow>
        page_tables U (two_grids g1 g2) = (if skipped g2 then [] else [norm_of U g2]))
   \<and> (extract_tables U pages i \<noteq> None
        \<longleftrightarrow> i < length pages \<and> page_tables U (pages ! i) \<noteq> [])
   \<and> (extract_tables U pages i = Some ts \<longrightarrow> ts = page_tables U (pages ! i) \<and> ts \<noteq> [])"
proof -
  have sh: "shape = (\<lambda>t. (headers t, length (rows t)))"
    by (simp add: fun_eq_iff shape_def)
  have a: "fingerprint t = (headers t, length (rows t))"
    by (simp add: fingerprint_def)
  have b: "page_tables U page = first_seen (\<lambda>t. (headers t, length (rows t))) (candidates U page)"
    using page_tables_shape [of U page] by (simp only: sh)
  have c: "subseq (page_tables U page) (candidates U page)"
    by (simp only: page_tables_shape subseq_first_seen)
  have d: "distinct (map (\<lambda>t. (headers t, length (rows t))) (page_tables U page))"
    using distinct_first_seen [of shape "candidates U page"] by (simp only: page_tables_shape sh)
  have e: "\<exists>t \<in> set (page_tables U page). headers t = headers c \<and> length (rows t) = length (rows c)"
    if "c \<in> set (candidates U page)" for c
    using every_key_kept [OF that, of shape] by (simp add: page_tables_shape shape_def)
  have f: "find (\<lambda>c. headers c = headers t \<and> length (rows c) = length (rows t)) (candidates U page)
         = Some t"
    if "t \<in> set (page_tables U page)" for t
  proof -
    from that have "find (\<lambda>c. shape c = shape t) (candidates U page) = Some t"
      by (simp only: page_tables_shape find_first_seen)
    then show ?thesis by (simp add: shape_def)
  qed
  have g: "page_tables U (two_grids g1 g2)
        = (if headers (norm_of U g1) = headers (norm_of U g2)
              \<and> length (rows (norm_of U g1)) = length (rows (norm_of U g2))
           then [norm_of U g1] else [norm_of U g1, norm_of U g2])"
    if "\<not> skipped g1" "\<not> skipped g2"
    using two_grids_tables [OF that, of U] by (simp add: shape_def)
  have h: "page_tables U (two_grids g1 g2) = (if skipped g2 then [] else [norm_of U g2])"
    if "skipped g1"
    using that by (rule skipped_first_tables)
  have k: "extract_tables U pages i \<noteq> None
        \<longleftrightarrow> i < length pages \<and> page_tables U (pages ! i) \<noteq> []"
    by (simp add: extract_tables_eq)
  have l: "ts = page_tables U (pages ! i) \<and> ts \<noteq> []" if "extract_tables U pages i = Some ts"
    using that by (auto simp add: extract_tables_eq split: if_splits)
  show ?thesis
    using a b c d e f g h k l by blast
qed

lemma nav_norm:
  "norm_of U nav_grid = \<lparr>headers = [str ''Scheme Name'', str ''NAV''], rows = [[str ''A 1'']]\<rparr>"
  by (simp add: str_evals rx_evals text_evals table_evals nav_grid_def)

lemma nav_spaced_norm:
  "norm_of U nav_grid_spaced = \<lparr>headers = [str ''Scheme Name'', str ''NAV''], rows = [[str ''B'']]\<rparr>"
  by (simp add: str_evals rx_evals text_evals table_evals nav_grid_spaced_def)

lemma fund_norm:
  "norm_of U fund_grid = \<lparr>headers = [str ''Fund NAV''], rows = [[str ''A 1'']]\<rparr>"
  by (simp add: str_evals rx_evals text_evals table_evals fund_grid_def)

lemma x_norm: "norm_of U x_grid = \<lparr>headers = [[]], rows = [[str ''x'']]\<rparr>"
  by (simp add: str_evals rx_evals text_evals table_evals x_grid_def)

lemma blank_norm: "norm_of U blank_grid = \<lparr>headers = [[]], rows = [[]]\<rparr>"
  by (simp add: str_evals rx_evals text_evals table_evals blank_grid_def)

lemma grids_skipped:
  "\<not> skipped nav_grid" "\<not> skipped nav_grid_spaced" "\<not> skipped fund_grid" "\<not> skipped x_grid"
  "skipped blank_grid"
  by (simp_all add: str_evals table_evals nav_grid_def nav_grid_spaced_def fund_grid_def
      x_grid_def blank_grid_def)

theorem tables_deduplicated_witness:
  "\<not> skipped nav_grid \<and> \<not> skipped nav_grid_spaced \<and> \<not> skipped fund_grid \<and> skipped blank_grid
   \<and> norm_of ascii_only nav_grid \<noteq> norm_of ascii_only nav_grid_spaced
   \<and> page_tables ascii_only nav_page
       = [\<lparr>headers = [str ''Scheme Name'', str ''NAV''], rows = [[str ''A 1'']]\<rparr>]
   \<and> page_tables ascii_only (two_grids nav_grid fund_grid)
       = [\<lparr>headers = [str ''Scheme Name'', str ''NAV''], rows = [[str ''A 1'']]\<rparr>,
          \<lparr>headers = [str ''Fund NAV''], rows = [[str ''A 1'']]\<rparr>]
   \<and> page_tables ascii_only (two_grids blank_grid nav_grid_spaced)
       = [\<lparr>headers = [str ''Scheme Name'', str ''NAV''], rows = [[str ''B'']]\<rparr>]
   \<and> find (\<lambda>c. headers c = [str ''Scheme Name'', str ''NAV''] \<and> length (rows c) = 1)
        (candidates ascii_only nav_page)
       = Some \<lparr>headers = [str ''Scheme Name'', str ''NAV''], rows = [[str ''A 1'']]\<rparr>
   \<and> extract_tables ascii_only [empty_page, nav_page] 1
       = Some [\<lparr>headers = [str ''Scheme Name'', str ''NAV''], rows = [[str ''A 1'']]\<rparr>]
   \<and> extract_tables ascii_only [empty_page, nav_page] 0 = None"
proof -
  let ?a = "\<lparr>headers = [str ''Scheme Name'', str ''NAV''], rows = [[str ''A 1'']]\<rparr>"
  let ?b = "\<lparr>headers = [str ''Scheme Name'', str ''NAV''], rows = [[str ''B'']]\<rparr>"
  let ?f = "\<lparr>headers = [str ''Fund NAV''], rows = [[str ''A 1'']]\<rparr>"
  note s = grids_skipped
  have ne: "norm_of ascii_only nav_grid \<noteq> norm_of ascii_only nav_grid_spaced"
    by (simp add: nav_norm nav_spaced_norm str_def)
  note T = tables_deduplicated [of ?a ascii_only nav_page nav_grid nav_grid_spaced
      "[empty_page, nav_page]" 1 "[?a]"]
  from T s have "page_tables ascii_only (two_grids nav_grid nav_grid_spaced)
        = (if headers (norm_of ascii_only nav_grid) = headers (norm_of ascii_only nav_grid_spaced)
              \<and> length (rows (norm_of ascii_only nav_grid)) = length (rows (norm_of ascii_only nav_grid_spaced))
           then [norm_of ascii_only nav_grid] else [norm_of ascii_only nav_grid, norm_of ascii_only nav_grid_spaced])"
    by blast
  then have p1: "page_tables ascii_only nav_page = [?a]"
    by (simp add: nav_page_def nav_norm nav_spaced_norm)
  from tables_deduplicated [of ?a ascii_only nav_page nav_grid fund_grid "[]" 0 "[]"] s
  have "page_tables ascii_only (two_grids nav_grid fund_grid)
        = (if headers (norm_of ascii_only nav_grid) = headers (norm_of ascii_only fund_grid)
              \<and> length (rows (norm_of ascii_only nav_grid)) = length (rows (norm_of ascii_only fund_grid))
           then [norm_of ascii_only nav_grid] else [norm_of ascii_only nav_grid, norm_of ascii_only fund_grid])"
    by blast
  then have p2: "page_tables ascii_only (two_grids nav_grid fund_grid) = [?a, ?f]"
    by (simp add: nav_norm fund_norm str_def)
  from tables_deduplicated [of ?a ascii_only nav_page blank_grid nav_grid_spaced "[]" 0 "[]"] s
  have "page_tables ascii_only (two_grids blank_grid nav_grid_spaced)
        = (if skipped nav_grid_spaced then [] else [norm_of ascii_only nav_grid_spaced])"
    by blast
  then have p3: "page_tables ascii_only (two_grids blank_grid nav_grid_spaced) = [?b]"
    by (simp add: s nav_spaced_norm)
  from T have "\<forall>t \<in> set (page_tables ascii_only nav_page).
      find (\<lambda>c. headers c = headers t \<and> length (rows c) = length (rows t)) (candidates ascii_only nav_page)
      = Some t"
    by blast
  then have p4: "find (\<lambda>c. headers c = [str ''Scheme Name'', str ''NAV''] \<and> length (rows c) = 1)
        (candidates ascii_only nav_page) = Some ?a"
    by (simp add: p1)
  have e: "page_tables ascii_only empty_page = []"
    by (simp add: page_tables_def strategies_def run_mode_def tables_or_empty_def empty_page_def)
  from T have "extract_tables ascii_only [empty_page, nav_page] 1 \<noteq> None
      \<longleftrightarrow> 1 < length [empty_page, nav_page] \<and> page_tables ascii_only ([empty_page, nav_page] ! 1) \<noteq> []"
    by blast
  then obtain ts where ts: "extract_tables ascii_only [empty_page, nav_page] 1 = Some ts"
    by (auto simp add: p1)
  from tables_deduplicated [of ?a ascii_only nav_page nav_grid nav_grid_spaced "[empty_page, nav_page]" 1 ts] ts
  have "ts = page_tables ascii_only ([empty_page, nav_page] ! 1)"
    by blast
  with ts have p5: "extract_tables ascii_only [empty_page, nav_page] 1 = Some [?a]"
    by (simp add: p1)
  from tables_deduplicated [of ?a ascii_only nav_page nav_grid nav_grid_spaced "[empty_page, nav_page]" 0 "[]"]
  have "extract_tables ascii_only [empty_page, nav_page] 0 \<noteq> None
      \<longleftrightarrow> 0 < length [empty_page, nav_page] \<and> page_tables ascii_only ([empty_page, nav_page] ! 0) \<noteq> []"
    by blast
  then have p6: "extract_tables ascii_only [empty_page, nav_page] 0 = None"
    by (simp add: e)
  show ?thesis using s ne p1 p2 p3 p4 p5 p6 by blast
qed

text \<open>
  C6 as stated fails: of all raw tables of a page, the first with a fingerprint need not
  be the one kept, and two raw tables with the same normalized headers and number of rows
  need not give one table. A grid that is blank in every cell is skipped: when it comes
  first, the later grid with its fingerprint is kept, and two blank grids give no table.
\<close>

theorem blank_grid_not_kept:
  "fingerprint (norm_of ascii_only blank_grid) = fingerprint (norm_of ascii_only x_grid)
   \<and> norm_of ascii_only blank_grid \<noteq> norm_of ascii_only x_grid
   \<and> page_tables ascii_only (two_grids blank_grid x_grid) = [norm_of ascii_only x_grid]
   \<and> page_tables ascii_only (two_grids blank_grid blank_grid) = []"
proof -
  have "page_tables ascii_only (two_grids blank_grid x_grid) = [norm_of ascii_only x_grid]"
    "page_tables ascii_only (two_grids blank_grid blank_grid) = []"
    by (simp_all add: skipped_first_tables grids_skipped)
  then show ?thesis
    by (simp add: blank_norm x_norm fingerprint_def str_def)
qed

text \<open>
  C9. When one strategy raises on a page, the tables of the page are those it has when the
  strategy returns no grid: they are the deduplicated tables of the other strategy. The
  same holds of the whole result, in which the entries of the other pages are those of
  the pages themselves. \<open>extract_tables\<close> has a result in each case: the exception
  is caught in the loop and no other statement of the loop raises.
\<close>

theorem strategy_failure_isolated:
  "page_tables U (page(mode := Raises)) = page_tables U (page(mode := Returns []))
   \<and> (mode' \<noteq> mode \<longrightarrow>
        page_tables U (page(mode := Raises))
        = first_seen fingerprint
            (map (norm_of U) (filter (\<lambda>tbl. \<not> skipped tbl) (tables_or_empty (page mode')))))
   \<and> (i < length pages \<longrightarrow>
        extract_tables U (pages[i := (pages ! i)(mode := Raises)])
        = extract_tables U (pages[i := (pages ! i)(mode := Returns [])]))
   \<and> (i < length pages \<and> j \<noteq> i \<longrightarrow>
        extract_tables U (pages[i := (pages ! i)(mode := Raises)]) j = extract_tables U pages j)"
proof -
  have same: "page_tables U (pages[i := (pages ! i)(mode := Raises)] ! k)
        = page_tables U (pages[i := (pages ! i)(mode := Returns [])] ! k)" if "k < length pages" for k
    using that by (cases "k = i") (simp_all add: page_tables_raises)
  have "extract_tables U (pages[i := (pages ! i)(mode := Raises)]) k
        = extract_tables U (pages[i := (pages ! i)(mode := Returns [])]) k" for k
    using same [of k] by (cases "k < length pages") (simp_all add: extract_tables_eq)
  then have whole: "extract_tables U (pages[i := (pages ! i)(mode := Raises)])
        = extract_tables U (pages[i := (pages ! i)(mode := Returns [])])"
    by (rule ext)
  have others: "extract_tables U (pages[i := (pages ! i)(mode := Raises)]) j = extract_tables U pages j"
    if "j \<noteq> i"
    using that by (simp add: extract_tables_eq)
  show ?thesis
    using whole others page_tables_raises [of U page mode] page_tables_other_mode [of mode' mode U page]
    by blast
qed

theorem strategy_failure_isolated_witness:
  "Text \<noteq> Lines \<and> (1::nat) < length [empty_page, nav_page] \<and> (0::nat) \<noteq> 1
   \<and> page_tables ascii_only (nav_page(Lines := Raises))
     = [\<lparr>headers = [str ''Scheme Name'', str ''NAV''], rows = [[str ''B'']]\<rparr>]
   \<and> extract_tables ascii_only ([empty_page, nav_page][1 := ([empty_page, nav_page] ! 1)(Lines := Raises)])
     = extract_tables ascii_only ([empty_page, nav_page][1 := ([empty_page, nav_page] ! 1)(Lines := Returns [])])
   \<and> extract_tables ascii_only ([empty_page, nav_page][1 := ([empty_page, nav_page] ! 1)(Lines := Raises)]) 0
     = extract_tables ascii_only [empty_page, nav_page] 0"
proof -
  have n2: "norm_of ascii_only nav_grid_spaced
      = \<lparr>headers = [str ''Scheme Name'', str ''NAV''], rows = [[str ''B'']]\<rparr>"
    by (simp add: str_evals rx_evals text_evals table_evals example_evals)
  have s: "\<not> skipped nav_grid_spaced"
    by (simp add: str_evals example_evals table_evals)
  note T = strategy_failure_isolated [of ascii_only nav_page Lines Text 1 "[empty_page, nav_page]" 0]
  from T have "page_tables ascii_only (nav_page(Lines := Raises))
     = first_seen fingerprint
         (map (norm_of ascii_only) (filter (\<lambda>tbl. \<not> skipped tbl) (tables_or_empty (nav_page Text))))"
    by blast
  then have "page_tables ascii_only (nav_page(Lines := Raises))
     = [\<lparr>headers = [str ''Scheme Name'', str ''NAV''], rows = [[str ''B'']]\<rparr>]"
    using s n2 by (simp add: nav_page_def two_grids_def tables_or_empty_def)
  moreover have l: "(1::nat) < length [empty_page, nav_page]" and ne: "(0::nat) \<noteq> 1"
    by simp_all
  moreover from T l have "extract_tables ascii_only ([empty_page, nav_page][1 := ([empty_page, nav_page] ! 1)(Lines := Raises)])
     = extract_tables ascii_only ([empty_page, nav_page][1 := ([empty_page, nav_page] ! 1)(Lines := Returns [])])"
    by blast
  moreover from T l ne have "extract_tables ascii_only ([empty_page, nav_page][1 := ([empty_page, nav_page] ! 1)(Lines := Raises)]) 0
     = extract_tables ascii_only [empty_page, nav_page] 0"
    by blast
  ultimately show ?thesis by blast
qed

section \<open>Content merger: reading order\<close>























section \<open>Metadata extractor\<close>

lemma run_append: "run U st (xs @ ys) = run U (run U st xs) ys"
  by (simp add: run_def)

lemma run_Cons: "run U st (c # cs) = run U (step U st c) cs"
  by (simp add: run_def)

lemma run_Nil: "run U st [] = st"
  by (simp add: run_def)

subsection \<open>Fields that a rule leaves alone\<close>

lemma managers_set_date_of_allotment: "managers (set_date_of_allotment U text mt) = managers mt"
  by (simp add: set_date_of_allotment_def split: option.splits)

lemma managers_set_benchmark: "managers (set_benchmark text mt) = managers mt"
  by (simp add: set_benchmark_def split: option.splits)

lemma managers_set_additional_benchmark: "managers (set_additional_benchmark text mt) = managers mt"
  by (simp add: set_additional_benchmark_def split: option.splits)

lemma managers_set_aum_crore: "managers (set_aum_crore U text mt) = managers mt"
  by (simp add: set_aum_crore_def split: option.splits)

lemma managers_set_monthly_avg_aum: "managers (set_monthly_avg_aum U text mt) = managers mt"
  by (simp add: set_monthly_avg_aum_def split: option.splits)

lemma managers_set_expense_ratio_regular: "managers (set_expense_ratio_regular U text mt) = managers mt"
  by (simp add: set_expense_ratio_regular_def split: option.splits)

lemma managers_set_expense_ratio_direct: "managers (set_expense_ratio_direct U text mt) = managers mt"
  by (simp add: set_expense_ratio_direct_def split: option.splits)

lemma managers_labeled_values: "managers (labeled_values U text mt) = managers mt"
  by (simp add: labeled_values_def managers_set_date_of_allotment managers_set_benchmark
      managers_set_additional_benchmark managers_set_aum_crore managers_set_monthly_avg_aum
      managers_set_expense_ratio_regular managers_set_expense_ratio_direct)

lemma aum_set_date_of_allotment: "aum_crore (set_date_of_allotment U text mt) = aum_crore mt"
  by (simp add: set_date_of_allotment_def split: option.splits)

lemma aum_set_benchmark: "aum_crore (set_benchmark text mt) = aum_crore mt"
  by (simp add: set_benchmark_def split: option.splits)

lemma aum_set_additional_benchmark: "aum_crore (set_additional_benchmark text mt) = aum_crore mt"
  by (simp add: set_additional_benchmark_def split: option.splits)

lemma aum_set_monthly_avg_aum: "aum_crore (set_monthly_avg_aum U text mt) = aum_crore mt"
  by (simp add: set_monthly_avg_aum_def split: option.splits)

lemma aum_set_expense_ratio_regular: "aum_crore (set_expense_ratio_regular U text mt) = aum_crore mt"
  by (simp add: set_expense_ratio_regular_def split: option.splits)

lemma aum_set_expense_ratio_direct: "aum_crore (set_expense_ratio_direct U text mt) = aum_crore mt"
  by (simp add: set_expense_ratio_direct_def split: option.splits)

lemma aum_labeled_values:
  "aum_crore (labeled_values U text mt) = aum_crore (set_aum_crore U text mt)"
  by (simp add: labeled_values_def aum_set_monthly_avg_aum aum_set_expense_ratio_regular
      aum_set_expense_ratio_direct set_aum_crore_def aum_set_date_of_allotment aum_set_benchmark
      aum_set_additional_benchmark split: option.splits)

lemma meta_add_manager: "meta (add_manager U st mname) = (meta st)\<lparr>managers := managers (meta (add_manager U st mname))\<rparr>"
  by (simp add: add_manager_def Let_def)

lemma aum_add_managers: "aum_crore (meta (foldl (add_manager U) st names)) = aum_crore (meta st)"
proof (induction names arbitrary: st)
  case Nil
  then show ?case by simp
next
  case (Cons n names)
  have "aum_crore (meta (add_manager U st n)) = aum_crore (meta st)"
    by (simp add: add_manager_def Let_def)
  with Cons [of "add_manager U st n"] show ?case by simp
qed

lemma buffer_add_managers: "buffer (foldl (add_manager U) st names) = buffer st"
proof (induction names arbitrary: st)
  case Nil
  then show ?case by simp
next
  case (Cons n names)
  have "buffer (add_manager U st n) = buffer st"
    by (simp add: add_manager_def Let_def)
  with Cons [of "add_manager U st n"] show ?case by simp
qed

lemma aum_manager_rules: "aum_crore (meta (manager_rules U text st)) = aum_crore (meta st)"
  by (simp add: manager_rules_def aum_add_managers)

lemma aum_step:
  "aum_crore (meta (step U st c)) =
     (case item_text U c of
        None \<Rightarrow> aum_crore (meta st)
      | Some text \<Rightarrow>
          if name_rule U (meta st) text \<or> category_rule (meta st) text then aum_crore (meta st)
          else aum_crore (set_aum_crore U text (meta st)))"
  by (simp add: step_def aum_manager_rules aum_labeled_values split: option.splits)





subsection \<open>The manager list\<close>

lemma add_manager_between:
  assumes "seen_managers st = set (managers (meta st))" "distinct (managers (meta st))"
  shows "seen_managers (add_manager U st n) = set (managers (meta (add_manager U st n)))
         \<and> distinct (managers (meta (add_manager U st n)))
         \<and> prefix (managers (meta st)) (managers (meta (add_manager U st n)))"
  using assms by (simp add: add_manager_def Let_def)

lemma add_managers_between:
  assumes "seen_managers st = set (managers (meta st))" "distinct (managers (meta st))"
  shows "seen_managers (foldl (add_manager U) st names)
           = set (managers (meta (foldl (add_manager U) st names)))
         \<and> distinct (managers (meta (foldl (add_manager U) st names)))
         \<and> prefix (managers (meta st)) (managers (meta (foldl (add_manager U) st names)))"
  using assms
proof (induction names arbitrary: st)
  case Nil
  then show ?case by simp
next
  case (Cons n names)
  from add_manager_between [OF Cons.prems, of U n]
  have a: "seen_managers (add_manager U st n) = set (managers (meta (add_manager U st n)))"
    and b: "distinct (managers (meta (add_manager U st n)))"
    and c: "prefix (managers (meta st)) (managers (meta (add_manager U st n)))"
    by simp_all
  from Cons.IH [OF a b] c show ?case
    by (auto intro: prefix_order.trans)
qed

lemma manager_rules_between:
  assumes "between_items st"
  shows "between_items (manager_rules U text (st\<lparr>meta := labeled_values U text (meta st)\<rparr>))
         \<and> prefix (managers (meta st))
             (managers (meta (manager_rules U text (st\<lparr>meta := labeled_values U text (meta st)\<rparr>))))"
proof -
  let ?st = "st\<lparr>meta := labeled_values U text (meta st)\<rparr>"
  have s: "seen_managers ?st = set (managers (meta ?st))" and d: "distinct (managers (meta ?st))"
    and b: "buffer ?st = []" and m: "managers (meta ?st) = managers (meta st)"
    using assms by (simp_all add: between_items_def managers_labeled_values)
  show ?thesis
    using add_managers_between [OF s d, of U] b m s d
    by (simp add: manager_rules_def between_items_def buffer_add_managers)
qed

lemma step_between:
  assumes "between_items st"
  shows "between_items (step U st c) \<and> prefix (managers (meta st)) (managers (meta (step U st c)))"
proof (cases "item_text U c")
  case None
  with assms show ?thesis by (simp add: step_def)
next
  case (Some t)
  show ?thesis
  proof (cases "name_rule U (meta st) t \<or> category_rule (meta st) t")
    case True
    with Some assms show ?thesis by (auto simp add: step_def between_items_def)
  next
    case False
    with Some manager_rules_between [OF assms, of U t] show ?thesis
      by (simp add: step_def)
  qed
qed

lemma run_between:
  assumes "between_items st"
  shows "between_items (run U st cs) \<and> prefix (managers (meta st)) (managers (meta (run U st cs)))"
  using assms
proof (induction cs arbitrary: st)
  case Nil
  then show ?case by (simp add: run_Nil)
next
  case (Cons c cs)
  from step_between [OF Cons.prems, of U c] Cons.IH [of "step U st c"]
  show ?case by (auto simp add: run_Cons intro: prefix_order.trans)
qed

lemma initial_between: "between_items (initial U cover_text)"
  by (simp add: between_items_def initial_def empty_meta_def)


subsection \<open>Evaluation on the texts of the examples\<close>

lemmas text_item_evals = text_item_def at_top_def item_text_def not_str_def str_evals rx_evals
  text_evals

lemmas search_evals = str_evals rx_evals meta_evals

lemma aum_step_found:
  assumes "item_text U c = Some t" "\<not> contains (py_upper U t) (str ''FUND'')"
    and "\<not> startswith (py_strip t) [40]" "not_num (aum_crore (meta st))"
    and "re_search (rx_aum U (str ''Net AUM'')) t = Some (w, [a])" "amount U a = Some v"
  shows "aum_crore (meta (step U st c)) = Some v"
  using assms
  by (simp add: aum_step name_rule_def category_rule_def set_aum_crore_def grp_def)











lemma initial_aum: "aum_crore (meta (initial U cover_text)) = None"
  by (simp add: initial_def empty_meta_def)

lemma fund_heading_item: "item_text U fund_heading = Some (str ''ABC Equity Fund'')"
  by (simp add: fund_heading_def text_item_evals)

lemma fund_heading_step:
  "step U (initial U cover_text) fund_heading
   = (initial U cover_text)\<lparr>meta := (meta (initial U cover_text))\<lparr>name := Some (str ''ABC Equity Fund'')\<rparr>\<rparr>"
proof -
  have "name_rule U (meta (initial U cover_text)) (str ''ABC Equity Fund'')"
    by (simp add: name_rule_def initial_def empty_meta_def not_str_def str_evals)
  moreover have "py_strip (deglue (str ''ABC Equity Fund'')) = str ''ABC Equity Fund''"
    by (simp add: deglue_def rx_lower_upper_def spaced_def str_evals rx_evals)
  ultimately show ?thesis
    by (simp add: step_def fund_heading_item)
qed





text \<open>
  C4. The guard of the AUM rule is \<open>not meta.get("aum_crore")\<close>, which also holds of the
  value 0.0. After the paragraph \<open>"Net AUM : 0 crore"\<close> the field is 0, a successful
  match, and the later paragraph \<open>"Net AUM : 5 crore"\<close> changes it to 5.
\<close>

theorem aum_crore_set_twice:
  "aum_crore (extract_fund_metadata_from_content ascii_only (one_page [zero_aum]) []) = Some 0
   \<and> aum_crore (extract_fund_metadata_from_content ascii_only (one_page [zero_aum, five_aum]) [])
       = Some 5"
proof -
  let ?st = "step ascii_only (initial ascii_only []) zero_aum"
  have z: "aum_crore (meta ?st) = Some 0"
  proof (rule aum_step_found)
    show "item_text ascii_only zero_aum = Some (str ''Net AUM : 0 crore'')"
      by (simp add: zero_aum_def text_item_evals)
    show "\<not> contains (py_upper ascii_only (str ''Net AUM : 0 crore'')) (str ''FUND'')"
      by (simp add: str_evals)
    show "\<not> startswith (py_strip (str ''Net AUM : 0 crore'')) [40]"
      by (simp add: str_evals)
    show "not_num (aum_crore (meta (initial ascii_only [])))"
      by (simp add: initial_aum not_num_def)
    show "re_search (rx_aum ascii_only (str ''Net AUM'')) (str ''Net AUM : 0 crore'')
        = Some (str ''Net AUM : 0 crore'', [str ''0''])"
      by (simp add: search_evals)
    show "amount ascii_only (str ''0'') = Some 0"
      by (simp add: search_evals)
  qed
  have f: "aum_crore (meta (step ascii_only ?st five_aum)) = Some 5"
  proof (rule aum_step_found)
    show "item_text ascii_only five_aum = Some (str ''Net AUM : 5 crore'')"
      by (simp add: five_aum_def text_item_evals)
    show "\<not> contains (py_upper ascii_only (str ''Net AUM : 5 crore'')) (str ''FUND'')"
      by (simp add: str_evals)
    show "\<not> startswith (py_strip (str ''Net AUM : 5 crore'')) [40]"
      by (simp add: str_evals)
    show "not_num (aum_crore (meta ?st))"
      by (simp add: z not_num_def float_is_zero_def)
    show "re_search (rx_aum ascii_only (str ''Net AUM'')) (str ''Net AUM : 5 crore'')
        = Some (str ''Net AUM : 5 crore'', [str ''5''])"
      by (simp add: search_evals)
    show "amount ascii_only (str ''5'') = Some 5"
      by (simp add: search_evals)
  qed
  show ?thesis
    using z f by (simp add: extract_fund_metadata_from_content_def one_page_def run_Cons run_Nil)
qed

text \<open>
  C10. When the fund-name rule fires on an item (the name is unset, the upper-cased text
  contains \<open>FUND\<close>, the text has fewer than 120 characters and does not start with
  \<open>JUNE\<close>), the item changes the name and nothing else: every other field of the record,
  the manager list, the set of seen managers and the buffer are what they were, whether or
  not the text contains \<open>Fund Manager\<close>.
\<close>

theorem name_match_short_circuits:
  "item_text U c = Some t \<and> name_rule U (meta st) t \<longrightarrow>
     step U st c = st\<lparr>meta := (meta st)\<lparr>name := Some (py_strip (deglue t))\<rparr>\<rparr>
     \<and> managers (meta (step U st c)) = managers (meta st)
     \<and> seen_managers (step U st c) = seen_managers st
     \<and> buffer (step U st c) = buffer st
     \<and> (meta (step U st c))\<lparr>name := name (meta st)\<rparr> = meta st"
  by (simp add: step_def)

theorem name_match_short_circuits_witness:
  "item_text ascii_only manager_of_fund = Some (str ''Fund Manager: Mr. Ravi Kumar'')
   \<and> name_rule ascii_only (meta (initial ascii_only [])) (str ''Fund Manager: Mr. Ravi Kumar'')
   \<and> re_search (rx_fund_manager ascii_only) (str ''Fund Manager: Mr. Ravi Kumar'') \<noteq> None
   \<and> managers (meta (step ascii_only (initial ascii_only []) manager_of_fund)) = []
   \<and> name (meta (step ascii_only (initial ascii_only []) manager_of_fund))
       = Some (str ''Fund Manager: Mr. Ravi Kumar'')"
proof -
  let ?t = "str ''Fund Manager: Mr. Ravi Kumar''"
  have a: "item_text ascii_only manager_of_fund = Some ?t"
    by (simp add: manager_of_fund_def text_item_evals)
  have b: "name_rule ascii_only (meta (initial ascii_only [])) ?t"
    by (simp add: name_rule_def initial_def empty_meta_def not_str_def str_evals)
  have c: "re_search (rx_fund_manager ascii_only) ?t \<noteq> None"
    by (simp add: search_evals)
  have d: "py_strip (deglue ?t) = ?t"
    by (simp add: deglue_def rx_lower_upper_def spaced_def str_evals rx_evals)
  from name_match_short_circuits [of ascii_only manager_of_fund ?t "initial ascii_only []"] a b
  have "step ascii_only (initial ascii_only []) manager_of_fund
      = (initial ascii_only [])\<lparr>meta := (meta (initial ascii_only []))\<lparr>name := Some (py_strip (deglue ?t))\<rparr>\<rparr>"
    by blast
  then have "managers (meta (step ascii_only (initial ascii_only []) manager_of_fund)) = []"
    and "name (meta (step ascii_only (initial ascii_only []) manager_of_fund)) = Some ?t"
    by (simp_all add: d initial_def empty_meta_def)
  with a b c show ?thesis by blast
qed

subsection \<open>The paragraphs that name John Smith\<close>

lemma john_smith_step:
  assumes "between_items st" "\<not> not_str (name (meta st))"
    and "item_text U c = Some t"
    and "\<not> startswith (py_strip t) [40]"
    and "re_search (rx_fund_manager U) t \<noteq> None"
    and "re_findall1 rx_manager_names ([32] @ t) = [w]"
    and "manager_name U w = john_smith"
  shows "managers (meta (step U st c)) = add_once john_smith (managers (meta st))"
proof -
  have nr: "\<not> name_rule U (meta st) t"
    using assms(2) by (simp add: name_rule_def)
  have cr: "\<not> category_rule (meta st) t"
    using assms(4) by (simp add: category_rule_def)
  have js: "john_smith \<noteq> []"
    by (simp add: john_smith_def str_def)
  from assms(1) have b: "buffer st = []" and s: "seen_managers st = set (managers (meta st))"
    by (simp_all add: between_items_def)
  show ?thesis
    using assms(3,5,6,7) nr cr js b s
    by (simp add: step_def manager_rules_def add_manager_def add_once_def managers_labeled_values)
qed

lemma equity_item:
  "item_text U john_smith_equity = Some (str ''Fund Manager: Mr. John Smith (Equity)'')"
  by (simp add: john_smith_equity_def text_item_evals)

lemma debt_item:
  "item_text U john_smith_debt = Some (str ''Co-Fund Manager - Mr. John Smith (Debt)'')"
  by (simp add: john_smith_debt_def text_item_evals)

lemma john_smith_name: "manager_name U (str ''John Smith '') = john_smith"
  by (simp add: john_smith_def search_evals)

lemma equity_step:
  assumes "between_items st" "\<not> not_str (name (meta st))"
  shows "managers (meta (step U st john_smith_equity)) = add_once john_smith (managers (meta st))"
proof (rule john_smith_step [OF assms equity_item _ _ _ john_smith_name])
  show "\<not> startswith (py_strip (str ''Fund Manager: Mr. John Smith (Equity)'')) [40]"
    by (simp add: str_evals)
  show "re_search (rx_fund_manager U) (str ''Fund Manager: Mr. John Smith (Equity)'') \<noteq> None"
    by (simp add: search_evals)
  show "re_findall1 rx_manager_names ([32] @ str ''Fund Manager: Mr. John Smith (Equity)'')
      = [str ''John Smith '']"
    by (simp add: search_evals)
qed

lemma debt_step:
  assumes "between_items st" "\<not> not_str (name (meta st))"
  shows "managers (meta (step U st john_smith_debt)) = add_once john_smith (managers (meta st))"
proof (rule john_smith_step [OF assms debt_item _ _ _ john_smith_name])
  show "\<not> startswith (py_strip (str ''Co-Fund Manager - Mr. John Smith (Debt)'')) [40]"
    by (simp add: str_evals)
  show "re_search (rx_fund_manager U) (str ''Co-Fund Manager - Mr. John Smith (Debt)'') \<noteq> None"
    by (simp add: search_evals)
  show "re_findall1 rx_manager_names ([32] @ str ''Co-Fund Manager - Mr. John Smith (Debt)'')
      = [str ''John Smith '']"
    by (simp add: search_evals)
qed

lemma name_set_date_of_allotment: "name (set_date_of_allotment U t mt) = name mt"
  by (simp add: set_date_of_allotment_def split: option.splits)

lemma name_set_benchmark: "name (set_benchmark t mt) = name mt"
  by (simp add: set_benchmark_def split: option.splits)

lemma name_set_additional_benchmark: "name (set_additional_benchmark t mt) = name mt"
  by (simp add: set_additional_benchmark_def split: option.splits)

lemma name_set_aum_crore: "name (set_aum_crore U t mt) = name mt"
  by (simp add: set_aum_crore_def split: option.splits)

lemma name_set_monthly_avg_aum: "name (set_monthly_avg_aum U t mt) = name mt"
  by (simp add: set_monthly_avg_aum_def split: option.splits)

lemma name_set_expense_ratio_regular: "name (set_expense_ratio_regular U t mt) = name mt"
  by (simp add: set_expense_ratio_regular_def split: option.splits)

lemma name_set_expense_ratio_direct: "name (set_expense_ratio_direct U t mt) = name mt"
  by (simp add: set_expense_ratio_direct_def split: option.splits)

lemma name_labeled_values: "name (labeled_values U t mt) = name mt"
  by (simp add: labeled_values_def name_set_date_of_allotment name_set_benchmark
      name_set_additional_benchmark name_set_aum_crore name_set_monthly_avg_aum
      name_set_expense_ratio_regular name_set_expense_ratio_direct)

lemma name_add_managers: "name (meta (foldl (add_manager U) st names)) = name (meta st)"
proof (induction names arbitrary: st)
  case Nil
  then show ?case by simp
next
  case (Cons n names)
  have "name (meta (add_manager U st n)) = name (meta st)"
    by (simp add: add_manager_def Let_def)
  with Cons [of "add_manager U st n"] show ?case by simp
qed

lemma name_manager_rules: "name (meta (manager_rules U t st)) = name (meta st)"
  by (simp add: manager_rules_def name_add_managers)

lemma name_kept:
  assumes "\<not> not_str (name (meta st))"
  shows "name (meta (step U st c)) = name (meta st)"
proof (cases "item_text U c")
  case None
  then show ?thesis by (simp add: step_def)
next
  case (Some t)
  have "\<not> name_rule U (meta st) t"
    using assms by (simp add: name_rule_def)
  with Some show ?thesis
    by (simp add: step_def name_manager_rules name_labeled_values)
qed

text \<open>
  C7 (as amended). For every content the manager list has no entry twice, and the list
  after more items is the list before them with the new names appended. Once an earlier
  item has set the fund name, the paragraph \<open>"Fund Manager: Mr. John Smith (Equity)"\<close>
  adds \<open>"John Smith"\<close> to the list unless it is there, and so does a second, different
  paragraph that names him: in a document with the heading \<open>"ABC Equity Fund"\<close> before the
  two paragraphs the list is \<open>["John Smith"]\<close> after the first and after the second.
\<close>

theorem managers_accumulate:
  "distinct (managers (extract_fund_metadata_from_content U pages cover_text))
   \<and> prefix (managers (meta (run U (initial U cover_text) xs)))
            (managers (meta (run U (initial U cover_text) (xs @ ys))))
   \<and> (\<not> not_str (name (meta (run U (initial U cover_text) xs))) \<longrightarrow>
        managers (meta (run U (initial U cover_text) (xs @ [john_smith_equity])))
          = add_once john_smith (managers (meta (run U (initial U cover_text) xs)))
        \<and> managers (meta (run U (initial U cover_text) (xs @ [john_smith_debt])))
          = add_once john_smith (managers (meta (run U (initial U cover_text) xs))))
   \<and> managers (extract_fund_metadata_from_content U (one_page [fund_heading, john_smith_equity]) [])
       = [john_smith]
   \<and> managers (extract_fund_metadata_from_content U
        (one_page [fund_heading, john_smith_equity, john_smith_debt]) [])
       = [john_smith]"
proof -
  let ?st = "run U (initial U cover_text) xs"
  have inv: "between_items (run U (initial U cov) zs)" for cov zs
    using run_between [OF initial_between] by blast
  have d: "distinct (managers (extract_fund_metadata_from_content U pages cover_text))"
    using inv by (simp add: extract_fund_metadata_from_content_def between_items_def)
  have p: "prefix (managers (meta ?st)) (managers (meta (run U (initial U cover_text) (xs @ ys))))"
    using run_between [OF inv, of U cover_text xs ys] by (simp add: run_append)
  have g: "managers (meta (run U (initial U cover_text) (xs @ [john_smith_equity])))
          = add_once john_smith (managers (meta ?st))
        \<and> managers (meta (run U (initial U cover_text) (xs @ [john_smith_debt])))
          = add_once john_smith (managers (meta ?st))"
    if "\<not> not_str (name (meta ?st))"
    using equity_step [OF inv that] debt_step [OF inv that]
    by (simp add: run_append run_Cons run_Nil)
  let ?h = "step U (initial U []) fund_heading"
  have h: "meta ?h = empty_meta\<lparr>name := Some (str ''ABC Equity Fund'')\<rparr>"
    by (simp add: fund_heading_step) (simp add: initial_def search_evals)
  have hb: "between_items ?h"
    using step_between [OF initial_between] by blast
  have hn: "\<not> not_str (name (meta ?h))"
    by (simp add: h not_str_def str_def)
  have e1: "managers (meta (step U ?h john_smith_equity)) = [john_smith]"
    using equity_step [OF hb hn] by (simp add: h add_once_def empty_meta_def)
  have eb: "between_items (step U ?h john_smith_equity)"
    using step_between [OF hb] by blast
  have en: "\<not> not_str (name (meta (step U ?h john_smith_equity)))"
    using hn by (simp add: name_kept)
  have e2: "managers (meta (step U (step U ?h john_smith_equity) john_smith_debt)) = [john_smith]"
    using debt_step [OF eb en] by (simp add: e1 add_once_def)
  have c1: "managers (extract_fund_metadata_from_content U (one_page [fund_heading, john_smith_equity]) [])
       = [john_smith]"
    using e1 by (simp add: extract_fund_metadata_from_content_def one_page_def run_Cons run_Nil)
  have c2: "managers (extract_fund_metadata_from_content U
        (one_page [fund_heading, john_smith_equity, john_smith_debt]) [])
       = [john_smith]"
    using e2 by (simp add: extract_fund_metadata_from_content_def one_page_def run_Cons run_Nil)
  show ?thesis using d p g c1 c2 by blast
qed

theorem managers_accumulate_witness:
  "\<not> not_str (name (meta (run ascii_only (initial ascii_only []) [fund_heading])))
   \<and> managers (meta (run ascii_only (initial ascii_only []) ([fund_heading] @ [john_smith_equity])))
       = [john_smith]
   \<and> managers (meta (run ascii_only (initial ascii_only []) ([fund_heading, john_smith_equity] @ [john_smith_debt])))
       = [john_smith]"
proof -
  have h: "meta (run ascii_only (initial ascii_only []) [fund_heading])
      = empty_meta\<lparr>name := Some (str ''ABC Equity Fund'')\<rparr>"
    by (simp add: run_Cons run_Nil fund_heading_step) (simp add: initial_def search_evals)
  then have n: "\<not> not_str (name (meta (run ascii_only (initial ascii_only []) [fund_heading])))"
    by (simp add: not_str_def str_def)
  from managers_accumulate [of ascii_only "[]" "[]" "[fund_heading]" "[]"] n
  have a: "managers (meta (run ascii_only (initial ascii_only []) ([fund_heading] @ [john_smith_equity])))
      = add_once john_smith (managers (meta (run ascii_only (initial ascii_only []) [fund_heading])))"
    by blast
  then have a': "managers (meta (run ascii_only (initial ascii_only []) ([fund_heading] @ [john_smith_equity])))
      = [john_smith]"
    by (simp add: h add_once_def empty_meta_def)
  have "name (meta (run ascii_only (initial ascii_only []) [fund_heading, john_smith_equity]))
      = name (meta (run ascii_only (initial ascii_only []) [fund_heading]))"
    using n by (simp add: run_Cons run_Nil name_kept)
  with n have n2: "\<not> not_str (name (meta (run ascii_only (initial ascii_only []) [fund_heading, john_smith_equity])))"
    by simp
  from managers_accumulate [of ascii_only "[]" "[]" "[fund_heading, john_smith_equity]" "[]"] n2
  have "managers (meta (run ascii_only (initial ascii_only []) ([fund_heading, john_smith_equity] @ [john_smith_debt])))
      = add_once john_smith (managers (meta (run ascii_only (initial ascii_only []) [fund_heading, john_smith_equity])))"
    by blast
  with a' have "managers (meta (run ascii_only (initial ascii_only []) ([fund_heading, john_smith_equity] @ [john_smith_debt])))
      = [john_smith]"
    by (simp add: add_once_def)
  with n a' show ?thesis by blast
qed

text \<open>
  C7 as stated fails: in a document whose first item is the paragraph
  \<open>"Fund Manager: Mr. John Smith (Equity)"\<close> the fund-name rule takes the paragraph (it
  contains \<open>FUND\<close> in upper case), and the manager list stays empty.
\<close>

theorem john_smith_taken_as_name:
  "managers (extract_fund_metadata_from_content ascii_only (one_page [john_smith_equity]) []) = []
   \<and> name (extract_fund_metadata_from_content ascii_only (one_page [john_smith_equity]) [])
       = Some (str ''Fund Manager: Mr. John Smith (Equity)'')"
proof -
  let ?t = "str ''Fund Manager: Mr. John Smith (Equity)''"
  have "name_rule ascii_only (meta (initial ascii_only [])) ?t"
    by (simp add: name_rule_def initial_def empty_meta_def not_str_def str_evals)
  moreover have "py_strip (deglue ?t) = ?t"
    by (simp add: deglue_def rx_lower_upper_def spaced_def str_evals rx_evals)
  ultimately have "step ascii_only (initial ascii_only []) john_smith_equity
      = (initial ascii_only [])\<lparr>meta := (meta (initial ascii_only []))\<lparr>name := Some ?t\<rparr>\<rparr>"
    by (simp add: step_def equity_item)
  then show ?thesis
    by (simp add: extract_fund_metadata_from_content_def one_page_def run_Cons run_Nil
        initial_def empty_meta_def)
qed

end
